theory Spec2Isabelle
  imports Main "HOL-Library.AList"
begin

section \<open>Values, errors and the simulated world\<close>

text \<open>
  The orchestrator \<^verbatim>\<open>run_docker.py\<close> is Python 3 (it uses f-strings). Its functions are
  embedded as state transformers over a simulated world: the working directory, the
  container daemon, a clock and the trace of calls made to the two collaborators (the
  container runtime and the durable store). An exception is a value \<open>Raise e\<close>; the world
  reached when it was raised is kept, since Python does not roll effects back.
  Console output (\<^verbatim>\<open>print\<close>) is not modelled. Time is counted in whole seconds, so
  that \<^verbatim>\<open>time.time()\<close>, the elapsed time and a numeric quota are integers.
\<close>

text \<open>The values an attribute of the argument namespace may hold.\<close>

datatype pyval = PNone | PBool bool | PInt int | PStr string

datatype error =
    AttributeError string
  | TypeError
  | UnboundLocalError string
  | UnicodeDecodeError
  | APIError string
  | FileNotFoundError string
  | FileExistsError string
  | IsADirectoryError string
  | SynapseMalformedEntityError
  | Exception string

datatype 'a result = Ok 'a | Raise error

text \<open>A directory entry: a regular file with its bytes, a directory with its entries, or
  a regular file that holds a tar archive of the listed members, written plain or through
  gzip.\<close>

datatype compression = Plain | Gzip

datatype node =
    File string
  | Dir "(string \<times> node) list"
  | Tar compression "(string \<times> node) list"

text \<open>Calls received by the collaborators, in the order they were made; a call for the
  logs of a container is recorded with the snapshot it returned.\<close>

datatype call =
    Login
  | Run string string "(string \<times> string \<times> string) list"
  | ListLive
  | Logs nat "string option"
  | Stop nat
  | Remove nat
  | Get string
  | RemoveImage string
  | Store string node pyval

text \<open>
  A container registered with the simulated daemon. \<open>lifetime\<close> is the number of seconds
  after which the workload exits by itself (\<open>None\<close>: it never does), \<open>history t\<close> the full
  output it has produced after running for \<open>t\<close> seconds.
\<close>

record inst =
  iname :: string
  started :: int
  lifetime :: "int option"
  history :: "int \<Rightarrow> string"
  stopped_at :: "int option"

record world =
  clock :: int
  daemon :: "(nat \<times> inst) list"
  next_id :: nat
  cwd_entries :: "(string \<times> node) list"
  calls :: "call list"

type_synonym 'a io = "world \<Rightarrow> 'a result \<times> world"

definition bind :: "'a io \<Rightarrow> ('a \<Rightarrow> 'b io) \<Rightarrow> 'b io" where
  "bind m f w = (case m w of (Raise e, w') \<Rightarrow> (Raise e, w') | (Ok x, w') \<Rightarrow> f x w')"

definition ret :: "'a \<Rightarrow> 'a io" where
  "ret x w = (Ok x, w)"

definition raise :: "error \<Rightarrow> 'a io" where
  "raise e w = (Raise e, w)"

definition lift :: "'a result \<Rightarrow> 'a io" where
  "lift r w = (r, w)"

definition record_call :: "call \<Rightarrow> world \<Rightarrow> world" where
  "record_call c w = w\<lparr>calls := calls w @ [c]\<rparr>"

section \<open>The working directory\<close>

text \<open>\<^verbatim>\<open>open(name, 'w')\<close>: creates or truncates a regular file; a directory cannot be opened.\<close>

definition open_w :: "string \<Rightarrow> unit io" where
  "open_w name w =
     (case map_of (cwd_entries w) name of
        Some (Dir es) \<Rightarrow> (Raise (IsADirectoryError name), w)
      | _ \<Rightarrow> (Ok (), w\<lparr>cwd_entries := AList.update name (File []) (cwd_entries w)\<rparr>))"

text \<open>\<^verbatim>\<open>f.write(s)\<close> on a file opened by \<open>open_w\<close>: the text is appended to what the
  file holds since it was opened.\<close>

definition file_write :: "string \<Rightarrow> string \<Rightarrow> unit io" where
  "file_write name s w =
     (Ok (), w\<lparr>cwd_entries :=
        AList.update name
          (File ((case map_of (cwd_entries w) name of Some (File c) \<Rightarrow> c | _ \<Rightarrow> []) @ s))
          (cwd_entries w)\<rparr>)"

text \<open>\<^verbatim>\<open>os.stat(name).st_size\<close>. The size of a regular file is its number of bytes. The size
  the file system reports for a directory or an archive is not modelled: a fixed block
  size stands for it, and no result below depends on it.\<close>

fun st_size :: "node \<Rightarrow> nat" where
  "st_size (File c) = length c"
| "st_size (Dir es) = 4096"
| "st_size (Tar z ms) = 10240"

definition os_stat_size :: "string \<Rightarrow> world \<Rightarrow> nat result" where
  "os_stat_size name w =
     (case map_of (cwd_entries w) name of
        None \<Rightarrow> Raise (FileNotFoundError name)
      | Some nd \<Rightarrow> Ok (st_size nd))"

section \<open>Text normalisation\<close>

text \<open>
  Bytes are \<open>char\<close>s; a decoded Python \<^verbatim>\<open>str\<close> is a list of code points.
  \<open>decode_utf8\<close> is \<^verbatim>\<open>bytes.decode("utf-8")\<close> with the default strict error handler:
  it raises on a stray continuation byte, a truncated or overlong sequence, a surrogate
  and a code point above U+10FFFF.
\<close>

definition is_cont :: "nat \<Rightarrow> bool" where
  "is_cont b \<longleftrightarrow> 128 \<le> b \<and> b \<le> 191"

fun decode_points :: "nat list \<Rightarrow> nat list result" where
  "decode_points [] = Ok []"
| "decode_points (b0 # bs) =
     (if b0 < 128 then
        (case decode_points bs of Raise e \<Rightarrow> Raise e | Ok r \<Rightarrow> Ok (b0 # r))
      else if 194 \<le> b0 \<and> b0 \<le> 223 then
        (case bs of
           b1 # t \<Rightarrow>
             if is_cont b1 then
               (case decode_points t of Raise e \<Rightarrow> Raise e
                | Ok r \<Rightarrow> Ok (((b0 - 192) * 64 + (b1 - 128)) # r))
             else Raise UnicodeDecodeError
         | _ \<Rightarrow> Raise UnicodeDecodeError)
      else if 224 \<le> b0 \<and> b0 \<le> 239 then
        (case bs of
           b1 # b2 # t \<Rightarrow>
             if (if b0 = 224 then 160 else 128) \<le> b1 \<and> b1 \<le> (if b0 = 237 then 159 else 191)
                \<and> is_cont b2 then
               (case decode_points t of Raise e \<Rightarrow> Raise e
                | Ok r \<Rightarrow> Ok (((b0 - 224) * 4096 + (b1 - 128) * 64 + (b2 - 128)) # r))
             else Raise UnicodeDecodeError
         | _ \<Rightarrow> Raise UnicodeDecodeError)
      else if 240 \<le> b0 \<and> b0 \<le> 244 then
        (case bs of
           b1 # b2 # b3 # t \<Rightarrow>
             if (if b0 = 240 then 144 else 128) \<le> b1 \<and> b1 \<le> (if b0 = 244 then 143 else 191)
                \<and> is_cont b2 \<and> is_cont b3 then
               (case decode_points t of Raise e \<Rightarrow> Raise e
                | Ok r \<Rightarrow>
                    Ok (((b0 - 240) * 262144 + (b1 - 128) * 4096 + (b2 - 128) * 64 + (b3 - 128)) # r))
             else Raise UnicodeDecodeError
         | _ \<Rightarrow> Raise UnicodeDecodeError)
      else Raise UnicodeDecodeError)"

definition decode_utf8 :: "string \<Rightarrow> nat list result" where
  "decode_utf8 bs = decode_points (map of_char bs)"

text \<open>\<^verbatim>\<open>s.encode("ascii", "ignore").decode("ascii")\<close>: the code points below 128 are kept,
  in order; the others are dropped.\<close>

definition ascii_ignore :: "nat list \<Rightarrow> string" where
  "ascii_ignore s = map char_of (filter (\<lambda>c. c < 128) s)"

text \<open>A Python \<^verbatim>\<open>str\<close> that the model holds as a \<open>string\<close> (one \<open>char\<close> per code point).\<close>

definition str_of :: "string \<Rightarrow> nat list" where
  "str_of s = map of_char s"

section \<open>\<^verbatim>\<open>create_log_file\<close> and \<^verbatim>\<open>store_log_file\<close>\<close>

datatype log_text = Bytes string | Str "nat list"

text \<open>
  \<^verbatim>\<open>
  def create_log_file(log_filename, log_text=None):
      with open(log_filename, 'w') as log_file:
          if log_text is not None:
              if isinstance(log_text, bytes):
                  log_text = log_text.decode("utf-8")
              log_file.write(log_text.encode("ascii", "ignore").decode("ascii"))
          else:
              log_file.write("No Logs")
  \<close>
  The file is opened, hence truncated, before the text is decoded.
\<close>

definition create_log_file :: "string \<Rightarrow> log_text option \<Rightarrow> unit io" where
  "create_log_file log_filename log_text =
     bind (open_w log_filename) (\<lambda>_.
       case log_text of
         Some t \<Rightarrow>
           bind (lift (case t of Bytes b \<Rightarrow> decode_utf8 b | Str s \<Rightarrow> Ok s)) (\<lambda>s.
             file_write log_filename (ascii_ignore s))
       | None \<Rightarrow> file_write log_filename ''No Logs'')"

text \<open>Truthiness of a value, as \<^verbatim>\<open>if not store\<close> tests it.\<close>

fun truthy :: "pyval \<Rightarrow> bool" where
  "truthy PNone = False"
| "truthy (PBool b) = b"
| "truthy (PInt n) = (n \<noteq> 0)"
| "truthy (PStr s) = (s \<noteq> [])"

text \<open>\<^verbatim>\<open>syn.store(File(log_filename, parent=parentid))\<close>: the durable store receives the
  file as it is on disk. A \<^verbatim>\<open>SynapseHTTPError\<close> of the store is caught and printed by the
  caller, so that both outcomes of the call continue alike.\<close>

definition syn_store :: "string \<Rightarrow> pyval \<Rightarrow> unit io" where
  "syn_store log_filename parentid w =
     (case map_of (cwd_entries w) log_filename of
        None \<Rightarrow> (Raise (FileNotFoundError log_filename), w)
      | Some nd \<Rightarrow> (Ok (), record_call (Store log_filename nd parentid) w))"

text \<open>\<^verbatim>\<open>synapseclient.File(path, parent=parentid)\<close>: the constructor of the entity. A file
  entity must have a parent: when \<^verbatim>\<open>parentid\<close> is falsy no \<^verbatim>\<open>parentId\<close> is set and the
  constructor raises \<^verbatim>\<open>SynapseMalformedEntityError\<close>.\<close>

definition synapse_file :: "string \<Rightarrow> pyval \<Rightarrow> unit io" where
  "synapse_file path parent w =
     (if truthy parent then (Ok (), w) else (Raise SynapseMalformedEntityError, w))"

text \<open>
  \<^verbatim>\<open>
  def store_log_file(syn, log_filename, parentid, store=True):
      statinfo = os.stat(log_filename)
      if statinfo.st_size > 0 and statinfo.st_size/1000.0 <= 50:
          ent = synapseclient.File(log_filename, parent=parentid)
          if not store:
              try:
                  syn.store(ent)
              except synapseclient.core.exceptions.SynapseHTTPError as err:
                  print(err)
  \<close>
  For an integer size, \<^verbatim>\<open>st_size/1000.0 <= 50\<close> holds exactly when \<open>st_size \<le> 50000\<close>.
  The entity is built before the flag is tested, outside the \<^verbatim>\<open>try\<close>.
\<close>

definition store_log_file :: "string \<Rightarrow> pyval \<Rightarrow> pyval \<Rightarrow> unit io" where
  "store_log_file log_filename parentid store =
     bind (\<lambda>w. (os_stat_size log_filename w, w)) (\<lambda>size.
       if size > 0 \<and> size \<le> 50000 then
         bind (synapse_file log_filename parentid) (\<lambda>ent.
           if \<not> truthy store then syn_store log_filename parentid else ret ())
       else ret ())"

text \<open>The number of calls to the durable store in a trace.\<close>

fun is_store :: "call \<Rightarrow> bool" where
  "is_store (Store f nd p) = True"
| "is_store _ = False"

definition store_calls :: "world \<Rightarrow> nat" where
  "store_calls w = length (filter is_store (calls w))"

section \<open>Dynamic typing of the argument namespace\<close>

text \<open>
  \<^verbatim>\<open>main(syn, args)\<close> reads its parameters as attributes of \<^verbatim>\<open>args\<close>. The namespace is
  a finite map from attribute names to values; reading an attribute that is not there
  raises \<^verbatim>\<open>AttributeError\<close>.
\<close>

type_synonym namespace = "string \<Rightarrow> pyval option"

definition getattr :: "namespace \<Rightarrow> string \<Rightarrow> pyval io" where
  "getattr args name =
     lift (case args name of None \<Rightarrow> Raise (AttributeError name) | Some v \<Rightarrow> Ok v)"

text \<open>The command line, as \<^verbatim>\<open>argparse\<close> reads it in \<^verbatim>\<open>__main__\<close>: every option is a
  string (no \<^verbatim>\<open>type=\<close> is given), \<^verbatim>\<open>--runtime_quota\<close> is optional, \<^verbatim>\<open>--store\<close> is a flag.\<close>

record cli =
  submissionid :: string
  docker_repository :: string
  docker_digest :: string
  input_dir :: string
  synapse_config :: string
  runtime_quota :: "string option"
  store :: bool
  parentid :: string
  status :: string

definition parse_args :: "cli \<Rightarrow> namespace" where
  "parse_args c = map_of
     [(''submissionid'', PStr (submissionid c)),
      (''docker_repository'', PStr (docker_repository c)),
      (''docker_digest'', PStr (docker_digest c)),
      (''input_dir'', PStr (input_dir c)),
      (''synapse_config'', PStr (synapse_config c)),
      (''runtime_quota'', (case runtime_quota c of None \<Rightarrow> PNone | Some q \<Rightarrow> PStr q)),
      (''store'', PBool (store c)),
      (''parentid'', PStr (parentid c)),
      (''status'', PStr (status c))]"

text \<open>\<^verbatim>\<open>a + b\<close> where one operand is a string: defined when both are, and then a string.\<close>

fun py_concat :: "pyval \<Rightarrow> pyval \<Rightarrow> string result" where
  "py_concat (PStr a) (PStr b) = Ok (a @ b)"
| "py_concat _ _ = Raise TypeError"

text \<open>\<^verbatim>\<open>time_elapsed > v\<close> with a number on the left: defined when \<open>v\<close> is a number
  (\<^verbatim>\<open>bool\<close> is one); a string or \<^verbatim>\<open>None\<close> on the right raises \<^verbatim>\<open>TypeError\<close>.\<close>

fun py_gt :: "int \<Rightarrow> pyval \<Rightarrow> bool result" where
  "py_gt t (PInt q) = Ok (t > q)"
| "py_gt t (PBool b) = Ok (t > (if b then 1 else 0))"
| "py_gt t PNone = Raise TypeError"
| "py_gt t (PStr s) = Raise TypeError"

text \<open>\<^verbatim>\<open>str(n)\<close> for an integer: its decimal digits, with a sign when negative.\<close>

fun str_nat :: "nat \<Rightarrow> string" where
  "str_nat n =
     (if n < 10 then [char_of (48 + n)] else str_nat (n div 10) @ [char_of (48 + n mod 10)])"

declare str_nat.simps [simp del]

definition str_int :: "int \<Rightarrow> string" where
  "str_int i = (if i < 0 then CHR ''-'' # str_nat (nat (- i)) else str_nat (nat i))"

text \<open>\<^verbatim>\<open>f"{v}"\<close>.\<close>

fun py_format :: "pyval \<Rightarrow> string" where
  "py_format PNone = ''None''"
| "py_format (PBool b) = (if b then ''True'' else ''False'')"
| "py_format (PInt i) = str_int i"
| "py_format (PStr s) = s"

section \<open>Paths and the directory walk\<close>

text \<open>\<^verbatim>\<open>os.path.join(a, b)\<close> (POSIX).\<close>

definition path_join :: "string \<Rightarrow> string \<Rightarrow> string" where
  "path_join a b =
     (if take 1 b = ''/'' then b
      else if a = [] \<or> last a = CHR ''/'' then a @ b
      else a @ ''/'' @ b)"

fun is_dir :: "node \<Rightarrow> bool" where
  "is_dir (Dir es) = True"
| "is_dir _ = False"

definition dir_names :: "(string \<times> node) list \<Rightarrow> string list" where
  "dir_names es = map fst (filter (\<lambda>(n, nd). is_dir nd) es)"

definition file_names :: "(string \<times> node) list \<Rightarrow> string list" where
  "file_names es = map fst (filter (\<lambda>(n, nd). \<not> is_dir nd) es)"

text \<open>
  \<^verbatim>\<open>os.walk(top)\<close> with its defaults: top-down, errors of the directory scan ignored.
  It yields \<open>(root, dirs, files)\<close> for the root and then walks every directory of \<open>dirs\<close> in
  turn, so every directory below it is visited, at any depth. The tree has no
  symbolic links.
\<close>

fun walk :: "string \<Rightarrow> node \<Rightarrow> (string \<times> string list \<times> string list) list"
  and walk_entries :: "string \<Rightarrow> (string \<times> node) list \<Rightarrow> (string \<times> string list \<times> string list) list"
where
  "walk root (Dir es) = (root, dir_names es, file_names es) # walk_entries root es"
| "walk root (File c) = []"
| "walk root (Tar z ms) = []"
| "walk_entries root [] = []"
| "walk_entries root ((n, nd) # es) =
     (if is_dir nd then walk (path_join root n) nd else []) @ walk_entries root es"

text \<open>What the host holds outside the working directory, the working directory's path
  and the behaviour of the container runtime when asked to run a container.\<close>

datatype launch =
    CreateFails string
  | StartFails string
  | Starts "int option" "int \<Rightarrow> string"

record env =
  getcwd :: string
  path_node :: "string \<Rightarrow> node option"
  launch_script :: "string \<Rightarrow> launch"

text \<open>A missing root, the empty path or a root that is no directory make the first scan
  fail; \<^verbatim>\<open>os.walk\<close> swallows that error and yields nothing.\<close>

definition os_walk :: "env \<Rightarrow> string \<Rightarrow> (string \<times> string list \<times> string list) list" where
  "os_walk e p =
     (if p = [] then []
      else case path_node e p of None \<Rightarrow> [] | Some nd \<Rightarrow> walk p nd)"

text \<open>
  \<^verbatim>\<open>
  for root, sub_dirs, _ in os.walk(args.input_dir):
      for sub_dir in sub_dirs:
          case_folder = os.path.join(root, sub_dir)
          case_id = case_folder[-5:]
  \<close>
  \<open>case_folders\<close> lists the values \<^verbatim>\<open>case_folder\<close> takes, in the order of the two loops.
\<close>

definition case_folders :: "env \<Rightarrow> string \<Rightarrow> string list" where
  "case_folders e p =
     concat (map (\<lambda>(root, sub_dirs, files). map (path_join root) sub_dirs) (os_walk e p))"

definition case_id_of :: "string \<Rightarrow> string" where
  "case_id_of case_folder = drop (length case_folder - 5) case_folder"

section \<open>The simulated container runtime\<close>

text \<open>
  The daemon keeps the containers it has created until they are removed. Only
  \<^verbatim>\<open>time.sleep\<close> advances the clock. Every operation on a container that the daemon
  no longer holds raises \<^verbatim>\<open>docker.errors.NotFound\<close>, which is an \<^verbatim>\<open>APIError\<close>.
\<close>

definition inst_running :: "int \<Rightarrow> inst \<Rightarrow> bool" where
  "inst_running now i \<longleftrightarrow>
     stopped_at i = None \<and> (case lifetime i of None \<Rightarrow> True | Some d \<Rightarrow> now - started i < d)"

definition age :: "int \<Rightarrow> inst \<Rightarrow> int" where
  "age now i =
     (case stopped_at i of
        Some t \<Rightarrow> t - started i
      | None \<Rightarrow> (case lifetime i of None \<Rightarrow> now - started i | Some d \<Rightarrow> min d (now - started i)))"

definition live_ids :: "world \<Rightarrow> nat list" where
  "live_ids w = map fst (filter (\<lambda>(k, i). inst_running (clock w) i) (daemon w))"

text \<open>\<^verbatim>\<open>client.containers.list()\<close>: the running containers.\<close>

definition containers_list :: "nat list io" where
  "containers_list w = (Ok (live_ids w), record_call ListLive w)"

definition register :: "string \<Rightarrow> int option \<Rightarrow> (int \<Rightarrow> string) \<Rightarrow> world \<Rightarrow> world" where
  "register name life hist w =
     w\<lparr>daemon := daemon w @
          [(next_id w, \<lparr>iname = name, started = clock w, lifetime = life,
                        history = hist, stopped_at = None\<rparr>)],
       next_id := Suc (next_id w)\<rparr>"

text \<open>\<^verbatim>\<open>client.containers.run(image, detach=True, volumes=..., name=..., ...)\<close>: create, then
  start. A failed start leaves the created container registered with the daemon.\<close>

definition containers_run ::
  "env \<Rightarrow> string \<Rightarrow> string \<Rightarrow> (string \<times> string \<times> string) list \<Rightarrow> nat io" where
  "containers_run e img name volumes w =
     (let w1 = record_call (Run img name volumes) w in
      if name \<in> set (map (\<lambda>(k, i). iname i) (daemon w)) then (Raise (APIError ''Conflict''), w1)
      else case launch_script e name of
          CreateFails msg \<Rightarrow> (Raise (APIError msg), w1)
        | StartFails msg \<Rightarrow> (Raise (APIError msg), register name (Some 0) (\<lambda>t. []) w1)
        | Starts life hist \<Rightarrow> (Ok (next_id w1), register name life hist w1))"

definition container_logs :: "nat \<Rightarrow> string io" where
  "container_logs c w =
     (case map_of (daemon w) c of
        None \<Rightarrow> (Raise (APIError ''No such container''), record_call (Logs c None) w)
      | Some i \<Rightarrow>
          (Ok (history i (age (clock w) i)),
           record_call (Logs c (Some (history i (age (clock w) i)))) w))"

definition container_stop :: "nat \<Rightarrow> unit io" where
  "container_stop c w =
     (case map_of (daemon w) c of
        None \<Rightarrow> (Raise (APIError ''No such container''), record_call (Stop c) w)
      | Some i \<Rightarrow>
          (Ok (), record_call (Stop c)
             (if inst_running (clock w) i
              then w\<lparr>daemon := AList.update c (i\<lparr>stopped_at := Some (clock w)\<rparr>) (daemon w)\<rparr>
              else w)))"

definition container_remove :: "nat \<Rightarrow> unit io" where
  "container_remove c w =
     (case map_of (daemon w) c of
        None \<Rightarrow> (Raise (APIError ''No such container''), record_call (Remove c) w)
      | Some i \<Rightarrow>
          if inst_running (clock w) i
          then (Raise (APIError ''cannot remove a running container''), record_call (Remove c) w)
          else (Ok (), record_call (Remove c) (w\<lparr>daemon := AList.delete c (daemon w)\<rparr>)))"

definition containers_get :: "string \<Rightarrow> nat io" where
  "containers_get name w =
     (case find (\<lambda>(k, i). iname i = name) (daemon w) of
        None \<Rightarrow> (Raise (APIError ''No such container''), record_call (Get name) w)
      | Some (k, i) \<Rightarrow> (Ok k, record_call (Get name) w))"

definition images_remove :: "string \<Rightarrow> unit io" where
  "images_remove img w = (Ok (), record_call (RemoveImage img) w)"

definition time_sleep :: "int \<Rightarrow> world \<Rightarrow> world" where
  "time_sleep n w = w\<lparr>clock := clock w + n\<rparr>"

text \<open>\<^verbatim>\<open>try: ... except Exception: print(...)\<close>.\<close>

definition catch_all :: "unit io \<Rightarrow> unit io" where
  "catch_all m w = (case m w of (Raise e, w') \<Rightarrow> (Ok (), w') | (Ok u, w') \<Rightarrow> (Ok (), w'))"

text \<open>
  \<^verbatim>\<open>
  def remove_docker_container(container_name):
      client = docker.from_env()
      try:
          cont = client.containers.get(container_name)
          cont.stop()
          cont.remove()
      except Exception:
          print("Unable to remove container")
  \<close>
\<close>

definition remove_docker_container :: "string \<Rightarrow> unit io" where
  "remove_docker_container container_name =
     catch_all (bind (containers_get container_name) (\<lambda>cont.
                bind (container_stop cont) (\<lambda>u. container_remove cont)))"

definition remove_docker_image :: "string \<Rightarrow> unit io" where
  "remove_docker_image image_name = catch_all (images_remove image_name)"

section \<open>Archiving\<close>

text \<open>
  \<^verbatim>\<open>
  def tar(directory, tar_filename):
      with tarfile.open(tar_filename, "w") as tar_o:
          tar_o.add(directory)
  \<close>
  The archive file is created before the directory is read; the directory is added with
  everything below it. Mode \<^verbatim>\<open>"w"\<close> writes an uncompressed archive (\<^verbatim>\<open>"w:gz"\<close> would
  compress); the name of the file plays no part. When adding fails, the file is closed
  as it is, empty.
\<close>

definition compression_of_mode :: "string \<Rightarrow> compression" where
  "compression_of_mode mode = (if mode = ''w:gz'' then Gzip else Plain)"

definition tar :: "string \<Rightarrow> string \<Rightarrow> unit io" where
  "tar directory tar_filename w =
     (case map_of (cwd_entries w) tar_filename of
        Some (Dir es) \<Rightarrow> (Raise (IsADirectoryError tar_filename), w)
      | _ \<Rightarrow>
         (case map_of (cwd_entries w) directory of
            None \<Rightarrow>
              (Raise (FileNotFoundError directory),
               w\<lparr>cwd_entries := AList.update tar_filename (File []) (cwd_entries w)\<rparr>)
          | Some nd \<Rightarrow>
              (Ok (),
               w\<lparr>cwd_entries :=
                   AList.update tar_filename (Tar (compression_of_mode ''w'') [(directory, nd)])
                     (cwd_entries w)\<rparr>)))"

definition ends_with :: "string \<Rightarrow> string \<Rightarrow> bool" where
  "ends_with suf s \<longleftrightarrow> drop (length s - length suf) s = suf"

text \<open>\<^verbatim>\<open>glob.glob("*.nii.gz")\<close>: the entries of the working directory whose name ends in
  \<^verbatim>\<open>.nii.gz\<close>; a name that starts with a dot is hidden from a pattern that does not.\<close>

definition glob_nii :: "world \<Rightarrow> string list" where
  "glob_nii w =
     filter (\<lambda>n. take 1 n \<noteq> ''.'' \<and> ends_with ''.nii.gz'' n) (remdups (map fst (cwd_entries w)))"

definition os_mkdir :: "string \<Rightarrow> unit io" where
  "os_mkdir name w =
     (case map_of (cwd_entries w) name of
        Some nd \<Rightarrow> (Raise (FileExistsError name), w)
      | None \<Rightarrow> (Ok (), w\<lparr>cwd_entries := cwd_entries w @ [(name, Dir [])]\<rparr>))"

text \<open>\<^verbatim>\<open>os.rename(name, os.path.join(dir, name))\<close> for an entry \<open>name\<close> and a directory \<open>dir\<close>
  of the working directory.\<close>

definition os_rename_into :: "string \<Rightarrow> string \<Rightarrow> unit io" where
  "os_rename_into name dir w =
     (case map_of (cwd_entries w) name of
        None \<Rightarrow> (Raise (FileNotFoundError name), w)
      | Some nd \<Rightarrow>
         (case map_of (cwd_entries w) dir of
            Some (Dir es) \<Rightarrow>
              (Ok (), w\<lparr>cwd_entries :=
                 AList.update dir (Dir (AList.update name nd es)) (AList.delete name (cwd_entries w))\<rparr>)
          | _ \<Rightarrow> (Raise (FileNotFoundError (path_join dir name)), w)))"

fun rename_all :: "string list \<Rightarrow> string \<Rightarrow> unit io" where
  "rename_all [] dir = ret ()"
| "rename_all (nifti # rest) dir = bind (os_rename_into nifti dir) (\<lambda>u. rename_all rest dir)"

text \<open>
  The end of \<^verbatim>\<open>main\<close>:
  \<^verbatim>\<open>
  if glob.glob("*.nii.gz"):
      os.mkdir("predictions")
      for nifti in glob.glob("*.nii.gz"):
          os.rename(nifti, os.path.join("predictions", nifti))
      tar("predictions", "predictions.tar.gz")
  else:
      raise Exception(
          "No *.nii.gz files found; please check whether running the "
          "Docker container locally will result in a NIfTI file."
      )
  \<close>
\<close>

definition no_results_message :: string where
  "no_results_message =
     ''No *.nii.gz files found; please check whether running the '' @
     ''Docker container locally will result in a NIfTI file.''"

definition main_collect :: "unit io" where
  "main_collect w =
     (if glob_nii w \<noteq> [] then
        bind (os_mkdir ''predictions'') (\<lambda>u.
        bind (\<lambda>w1. rename_all (glob_nii w1) ''predictions'' w1) (\<lambda>u.
        tar ''predictions'' ''predictions.tar.gz'')) w
      else (Raise (Exception no_results_message), w))"

section \<open>The per-case pipeline of \<^verbatim>\<open>main\<close>\<close>

text \<open>\<^verbatim>\<open>s.split(":")\<close>.\<close>

fun split_colon :: "string \<Rightarrow> string list" where
  "split_colon [] = [[]]"
| "split_colon (x # xs) =
     (if x = CHR '':'' then [] # split_colon xs
      else (case split_colon xs of p # ps \<Rightarrow> (x # p) # ps | [] \<Rightarrow> [[x]]))"

text \<open>
  \<^verbatim>\<open>
  mounted_volumes = {output_dir: '/data/results:rw', case_folder: '/data:rw'}
  all_volumes = [output_dir, case_folder]
  volumes = {}
  for vol in all_volumes:
      volumes[vol] = {'bind': mounted_volumes[vol].split(":")[0],
                      'mode': mounted_volumes[vol].split(":")[1]}
  \<close>
  Both keys of \<^verbatim>\<open>all_volumes\<close> are keys of \<^verbatim>\<open>mounted_volumes\<close>, and both of its values
  have two parts.
\<close>

definition mounted_volumes :: "string \<Rightarrow> string \<Rightarrow> (string \<times> string) list" where
  "mounted_volumes output_dir case_folder =
     AList.update case_folder ''/data:rw'' (AList.update output_dir ''/data/results:rw'' [])"

definition volumes_of :: "string \<Rightarrow> string \<Rightarrow> (string \<times> string \<times> string) list" where
  "volumes_of output_dir case_folder =
     fold (\<lambda>vol volumes.
             case map_of (mounted_volumes output_dir case_folder) vol of
               None \<Rightarrow> volumes
             | Some m \<Rightarrow> AList.update vol (split_colon m ! 0, split_colon m ! 1) volumes)
          [output_dir, case_folder] []"

text \<open>The local variables of \<^verbatim>\<open>main\<close> that one iteration of the case loop may leave
  unassigned; \<open>None\<close> is an unbound name. They keep their value from one case to the next.\<close>

record locals =
  container :: "nat option"
  errors :: "string option"

text \<open>
  \<^verbatim>\<open>
  try:
      container_name = f"{args.subissionid}_case{case_id}"
      container = client.containers.run(docker_image, detach=True, volumes=volumes,
                                        name=container_name, network_disabled=True,
                                        stderr=True, runtime="nvidia")
  except docker.errors.APIError as err:
      remove_docker_container(container_name)
      print(str(err))
      errors = str(err) + "\n"
  \<close>
  Only an \<^verbatim>\<open>APIError\<close> is handled; any other exception leaves the block.
\<close>

definition main_launch ::
  "env \<Rightarrow> namespace \<Rightarrow> string \<Rightarrow> string \<Rightarrow> string \<Rightarrow> locals \<Rightarrow> locals io" where
  "main_launch e args docker_image output_dir case_folder loc =
     bind (getattr args ''subissionid'') (\<lambda>sid w.
       let container_name = py_format sid @ ''_case'' @ case_id_of case_folder in
       case containers_run e docker_image container_name (volumes_of output_dir case_folder) w of
         (Ok c, w1) \<Rightarrow> (Ok (loc\<lparr>container := Some c\<rparr>), w1)
       | (Raise (APIError msg), w1) \<Rightarrow>
           bind (remove_docker_container container_name) (\<lambda>u.
             ret (loc\<lparr>errors := Some (msg @ [CHR 0x0A])\<rparr>)) w1
       | (Raise err, w1) \<Rightarrow> (Raise err, w1))"

text \<open>
  One pass through the body of the polling loop after the quota test:
  \<^verbatim>\<open>
  log_text = container.logs()
  create_log_file(log_filename, log_text=log_text)
  store_log_file(syn, log_filename, args.parentid, store=args.store)
  \<close>
\<close>

definition drain_tick :: "namespace \<Rightarrow> string \<Rightarrow> nat \<Rightarrow> unit io" where
  "drain_tick args log_filename c =
     bind (container_logs c) (\<lambda>log_text.
     bind (create_log_file log_filename (Some (Bytes log_text))) (\<lambda>u.
     bind (getattr args ''parentid'') (\<lambda>parentid.
     bind (getattr args ''store'') (\<lambda>store.
     store_log_file log_filename parentid store))))"

text \<open>
  \<^verbatim>\<open>
  while container in client.containers.list():
      time_elapsed = time.time() - start_time
      if time_elapsed > args.runtime_quota:
          container.stop()
          break
      log_text = container.logs()
      create_log_file(log_filename, log_text=log_text)
      store_log_file(syn, log_filename, args.parentid, store=args.store)
      time.sleep(60)
  \<close>
  The loop returns the last value of \<^verbatim>\<open>time_elapsed\<close>.
\<close>

function monitor_loop ::
  "namespace \<Rightarrow> string \<Rightarrow> nat \<Rightarrow> int \<Rightarrow> int \<Rightarrow> world \<Rightarrow> int result \<times> world" where
  "monitor_loop args log_filename c start_time time_elapsed w =
     (case containers_list w of
        (Raise e, w1) \<Rightarrow> (Raise e, w1)
      | (Ok live, w1) \<Rightarrow>
          if c \<in> set live then
            (case getattr args ''runtime_quota'' w1 of
               (Raise e, w2) \<Rightarrow> (Raise e, w2)
             | (Ok quota, w2) \<Rightarrow>
                 (case py_gt (clock w1 - start_time) quota of
                    Raise e \<Rightarrow> (Raise e, w2)
                  | Ok True \<Rightarrow>
                      (case container_stop c w2 of
                         (Raise e, w3) \<Rightarrow> (Raise e, w3)
                       | (Ok u, w3) \<Rightarrow> (Ok (clock w1 - start_time), w3))
                  | Ok False \<Rightarrow>
                      (case drain_tick args log_filename c w2 of
                         (Raise e, w3) \<Rightarrow> (Raise e, w3)
                       | (Ok u, w3) \<Rightarrow>
                           monitor_loop args log_filename c start_time (clock w1 - start_time)
                             (time_sleep 60 w3))))
          else (Ok time_elapsed, w1))"
  by pat_completeness auto

text \<open>The numeric value of the quota, for the termination measure of the loop.\<close>

definition quota_of :: "namespace \<Rightarrow> int" where
  "quota_of args =
     (case args ''runtime_quota'' of
        Some (PInt q) \<Rightarrow> q
      | Some (PBool b) \<Rightarrow> (if b then 1 else 0)
      | _ \<Rightarrow> 0)"

definition quota_message :: "pyval \<Rightarrow> string \<Rightarrow> string" where
  "quota_message quota case_id =
     ''Time limit of '' @ py_format quota @ ''s reached'' @
     ''for case '' @ case_id @ '' - no output generated.''"

text \<open>
  The monitoring branch, entered with a container handle:
  \<^verbatim>\<open>
  while container in client.containers.list(): ...
  if time_elapsed > args.runtime_quota:
      log_text = (f"Time limit of {args.runtime_quota}s reached"
                  f"for case {case_id} - no output generated.")
  else:
      log_text = container.logs()
  create_log_file(log_filename, log_text=log_text)
  store_log_file(syn, log_filename, args.parentid, store=args.store)
  container.remove()
  \<close>
\<close>

definition main_monitor ::
  "namespace \<Rightarrow> string \<Rightarrow> string \<Rightarrow> nat \<Rightarrow> int \<Rightarrow> int \<Rightarrow> unit io" where
  "main_monitor args log_filename case_id c start_time time_elapsed0 =
     bind (monitor_loop args log_filename c start_time time_elapsed0) (\<lambda>time_elapsed.
     bind (getattr args ''runtime_quota'') (\<lambda>quota.
     bind (lift (py_gt time_elapsed quota)) (\<lambda>over.
     bind (if over then
             bind (getattr args ''runtime_quota'') (\<lambda>q.
               ret (Str (str_of (quota_message q case_id))))
           else bind (container_logs c) (\<lambda>b. ret (Bytes b))) (\<lambda>log_text.
     bind (create_log_file log_filename (Some log_text)) (\<lambda>u.
     bind (getattr args ''parentid'') (\<lambda>parentid.
     bind (getattr args ''store'') (\<lambda>store.
     bind (store_log_file log_filename parentid store) (\<lambda>u.
     container_remove c))))))))"

text \<open>
  The body of the case loop for one \<^verbatim>\<open>case_folder\<close>. \<^verbatim>\<open>start_time\<close> is read from the
  clock before the launch; a container handle returned by \<^verbatim>\<open>run\<close> is never \<^verbatim>\<open>None\<close>, so
  \<^verbatim>\<open>if container is not None\<close> either enters the monitoring branch or, when the name
  was never assigned, raises \<^verbatim>\<open>UnboundLocalError\<close>. The same holds for \<^verbatim>\<open>errors\<close> in
  \<^verbatim>\<open>
  statinfo = os.stat(log_filename)
  if statinfo.st_size == 0:
      create_log_file(log_filename, log_text=errors)
      store_log_file(syn, log_filename, args.parentid, store=args.store)
  \<close>
\<close>

definition main_case ::
  "env \<Rightarrow> namespace \<Rightarrow> string \<Rightarrow> string \<Rightarrow> string \<Rightarrow> locals \<Rightarrow> locals io" where
  "main_case e args docker_image output_dir case_folder loc w =
     (let case_id = case_id_of case_folder;
          start_time = clock w;
          time_elapsed = 0
      in
        bind (main_launch e args docker_image output_dir case_folder loc) (\<lambda>loc1.
        bind (getattr args ''submissionid'') (\<lambda>sid.
        bind (lift (py_concat sid (PStr ''_log.txt''))) (\<lambda>log_filename.
        bind (open_w log_filename) (\<lambda>u.
        bind (case container loc1 of
                None \<Rightarrow> raise (UnboundLocalError ''container'')
              | Some c \<Rightarrow> main_monitor args log_filename case_id c start_time time_elapsed) (\<lambda>u.
        bind (\<lambda>w'. (os_stat_size log_filename w', w')) (\<lambda>size.
          if size = 0 then
            bind (case errors loc1 of
                    None \<Rightarrow> raise (UnboundLocalError ''errors'')
                  | Some err \<Rightarrow> create_log_file log_filename (Some (Str (str_of err)))) (\<lambda>u.
            bind (getattr args ''parentid'') (\<lambda>parentid.
            bind (getattr args ''store'') (\<lambda>store.
            bind (store_log_file log_filename parentid store) (\<lambda>u.
            ret loc1))))
          else ret loc1)))))) w)"

fun main_cases ::
  "env \<Rightarrow> namespace \<Rightarrow> string \<Rightarrow> string \<Rightarrow> string list \<Rightarrow> locals \<Rightarrow> locals io" where
  "main_cases e args docker_image output_dir [] loc = ret loc"
| "main_cases e args docker_image output_dir (case_folder # rest) loc =
     bind (main_case e args docker_image output_dir case_folder loc)
          (main_cases e args docker_image output_dir rest)"

text \<open>
  \<^verbatim>\<open>main(syn, args)\<close>. The registry login (credentials read from the configuration file)
  is recorded as a call and taken to succeed. No local of the case loop is bound before
  the loop.
\<close>

definition main :: "env \<Rightarrow> namespace \<Rightarrow> unit io" where
  "main e args =
     bind (getattr args ''status'') (\<lambda>status.
       if status = PStr ''INVALID'' then raise (Exception ''Docker image is invalid'')
       else
         bind (getattr args ''synapse_config'') (\<lambda>config.
         bind (\<lambda>w. (Ok (), record_call Login w)) (\<lambda>u.
         bind (getattr args ''docker_repository'') (\<lambda>repository.
         bind (lift (py_concat repository (PStr ''@''))) (\<lambda>prefix.
         bind (getattr args ''docker_digest'') (\<lambda>digest.
         bind (lift (py_concat (PStr prefix) digest)) (\<lambda>docker_image.
         bind (getattr args ''input_dir'') (\<lambda>inp.
         bind (lift (case inp of PStr p \<Rightarrow> Ok p | _ \<Rightarrow> Raise TypeError)) (\<lambda>p.
         bind (main_cases e args docker_image (getcwd e) (case_folders e p)
                 \<lparr>container = None, errors = None\<rparr>) (\<lambda>loc.
         bind (remove_docker_image docker_image) (\<lambda>u.
         main_collect)))))))))))"

section \<open>Scenarios\<close>

text \<open>A working directory that holds the log file of submission 9 with the given bytes,
  an idle daemon and an empty trace.\<close>

definition world_with_log :: "string \<Rightarrow> world" where
  "world_with_log c =
     \<lparr>clock = 0, daemon = [], next_id = 0, cwd_entries = [(''9_log.txt'', File c)], calls = []\<rparr>"

text \<open>A command line for submission 9 with a quota of 90 and \<^verbatim>\<open>--store\<close> given.\<close>

definition cli_store :: cli where
  "cli_store =
     \<lparr>submissionid = ''9'', docker_repository = ''repo'', docker_digest = ''sha'',
      input_dir = ''/in'', synapse_config = ''cfg'', runtime_quota = Some ''90'', store = True,
      parentid = ''syn1'', status = ''VALIDATED''\<rparr>"

text \<open>The number of directories below a node, at any depth.\<close>

fun dirs_below :: "node \<Rightarrow> nat"
  and dirs_among :: "(string \<times> node) list \<Rightarrow> nat"
where
  "dirs_below (Dir es) = dirs_among es"
| "dirs_below (File c) = 0"
| "dirs_below (Tar z ms) = 0"
| "dirs_among [] = 0"
| "dirs_among ((n, nd) # es) = (if is_dir nd then Suc (dirs_below nd) else 0) + dirs_among es"

text \<open>
  The paths of the directories below a root, top-down: first the immediate
  subdirectories in listing order, then, for each entry in listing order, the
  directories below it.
\<close>

fun dirs_top_down :: "string \<Rightarrow> node \<Rightarrow> string list"
  and dirs_top_down_each :: "string \<Rightarrow> (string \<times> node) list \<Rightarrow> string list"
where
  "dirs_top_down root (Dir es) = map (path_join root) (dir_names es) @ dirs_top_down_each root es"
| "dirs_top_down root (File c) = []"
| "dirs_top_down root (Tar z ms) = []"
| "dirs_top_down_each root [] = []"
| "dirs_top_down_each root ((n, nd) # es) =
     dirs_top_down (path_join root n) nd @ dirs_top_down_each root es"

text \<open>An input root with two case directories, each holding a directory of its own, and
  a file between them.\<close>

definition two_branches :: "(string \<times> node) list" where
  "two_branches =
     [(''A'', Dir [(''x'', Dir [])]), (''notes.txt'', File ''n''), (''B'', Dir [(''y'', Dir [])])]"

definition entries_of :: "node \<Rightarrow> (string \<times> node) list" where
  "entries_of nd = (case nd of Dir es \<Rightarrow> es | _ \<Rightarrow> [])"

definition folders_of :: "(string \<times> string list \<times> string list) list \<Rightarrow> string list" where
  "folders_of triples = concat (map (\<lambda>(root, sub_dirs, files). map (path_join root) sub_dirs) triples)"

text \<open>An input root \<^verbatim>\<open>/in\<close> with two case directories that hold files only, and a
  host on which \<^verbatim>\<open>/in\<close> is the only path that exists.\<close>

definition two_cases :: "(string \<times> node) list" where
  "two_cases =
     [(''BraTS2021_00001'', Dir [(''t1.nii.gz'', File ''a'')]),
      (''BraTS2021_00002'', Dir [(''t1.nii.gz'', File ''b'')])]"

definition env_with :: "(string \<times> node) list \<Rightarrow> (string \<Rightarrow> launch) \<Rightarrow> env" where
  "env_with es script =
     \<lparr>getcwd = ''/work'',
      path_node = (\<lambda>p. if p = ''/in'' then Some (Dir es) else None),
      launch_script = script\<rparr>"

text \<open>A runtime whose \<^verbatim>\<open>run\<close> always fails before a container is created.\<close>

definition never_launches :: "string \<Rightarrow> launch" where
  "never_launches name = CreateFails ''no such image''"

text \<open>An input root whose only case directory holds a directory of its own.\<close>

definition env_nested :: env where
  "env_nested = env_with [(''A'', Dir [(''B'', Dir [])])] never_launches"

text \<open>A world whose working directory holds the given entries; a host on which the
  input root does not exist.\<close>

definition world_with_files :: "(string \<times> node) list \<Rightarrow> world" where
  "world_with_files es = \<lparr>clock = 0, daemon = [], next_id = 0, cwd_entries = es, calls = []\<rparr>"

definition env_missing_root :: env where
  "env_missing_root = \<lparr>getcwd = ''/work'', path_node = (\<lambda>p. None), launch_script = never_launches\<rparr>"

text \<open>
  A namespace as a caller of \<^verbatim>\<open>main\<close> other than the command line may pass it: the
  attributes of \<open>cli_store\<close>, the attribute \<^verbatim>\<open>subissionid\<close> that the launch reads, and
  the given value for the quota.
\<close>

definition args_with :: "pyval \<Rightarrow> namespace" where
  "args_with quota =
     (parse_args cli_store)(''subissionid'' \<mapsto> PStr ''9'', ''runtime_quota'' \<mapsto> quota)"

definition one_case :: "(string \<times> node) list" where
  "one_case = [(''BraTS2021_00001'', Dir [(''t1.nii.gz'', File ''a'')])]"

text \<open>A workload that prints \<^verbatim>\<open>line1\<close> within its first minute, \<^verbatim>\<open>line2\<close> before it exits
  after 90 seconds, that is between the polls at 60 and at 120 seconds.\<close>

definition exits_between_ticks :: "string \<Rightarrow> launch" where
  "exits_between_ticks name =
     Starts (Some 90)
       (\<lambda>t. if t < 60 then [] else if t < 90 then ''line1'' @ [CHR 0x0A]
            else ''line1'' @ [CHR 0x0A] @ ''line2'')"

definition after_exit_between_ticks :: world where
  "after_exit_between_ticks =
     \<lparr>clock = 120, daemon = [], next_id = 1,
      cwd_entries = [(''9_log.txt'', File (''line1'' @ [CHR 0x0A] @ ''line2''))],
      calls = [Run ''repo@sha'' ''9_case00001''
                 [(''/work'', ''/data/results'', ''rw''), (''/in/BraTS2021_00001'', ''/data'', ''rw'')],
               ListLive, Logs 0 (Some []),
               ListLive, Logs 0 (Some (''line1'' @ [CHR 0x0A])),
               ListLive, Logs 0 (Some (''line1'' @ [CHR 0x0A] @ ''line2'')),
               Remove 0]\<rparr>"

text \<open>The calls that read the output of a container.\<close>

fun is_logs :: "call \<Rightarrow> bool" where
  "is_logs (Logs c snapshot) = True"
| "is_logs _ = False"

text \<open>The last call in a trace that read the output of a container, if there is one.\<close>

definition last_logs :: "call list \<Rightarrow> call option" where
  "last_logs cs = (case rev (filter is_logs cs) of [] \<Rightarrow> None | l # ls \<Rightarrow> Some l)"

text \<open>A workload that never exits and has printed \<^verbatim>\<open>out\<close>, and its container.\<close>

definition runs_forever :: "string \<Rightarrow> launch" where
  "runs_forever name = Starts None (\<lambda>t. ''out'')"

definition busy_inst :: inst where
  "busy_inst = \<lparr>iname = ''9_case00001'', started = 0, lifetime = None,
                 history = (\<lambda>t. ''out''), stopped_at = None\<rparr>"

text \<open>The container of the workload that exits between two polls.\<close>

definition slow_inst :: inst where
  "slow_inst = \<lparr>iname = ''9_case00001'', started = 0, lifetime = Some 90,
                 history = (\<lambda>t. if t < 60 then [] else if t < 90 then ''line1'' @ [CHR 0x0A]
                                else ''line1'' @ [CHR 0x0A] @ ''line2''),
                 stopped_at = None\<rparr>"

text \<open>The world right after the launch of the workload that never exits, with the log
  file of the case created.\<close>

definition launched_world :: world where
  "launched_world =
     \<lparr>clock = 0, daemon = [(0, busy_inst)], next_id = 1,
      cwd_entries = [(''9_log.txt'', File [])],
      calls = [Run ''repo@sha'' ''9_case00001''
                 [(''/work'', ''/data/results'', ''rw''), (''/in/BraTS2021_00001'', ''/data'', ''rw'')]]\<rparr>"

text \<open>The container of the workload that exits between two polls, at the poll after one
  minute, with an older text in the log file; and the world in which the polling loop of
  that workload ends.\<close>

definition drain_world :: world where
  "drain_world =
     \<lparr>clock = 60, daemon = [(0, slow_inst)], next_id = 1,
      cwd_entries = [(''9_log.txt'', File ''old'')], calls = []\<rparr>"

definition after_two_polls :: world where
  "after_two_polls =
     \<lparr>clock = 120, daemon = [(0, slow_inst)], next_id = 1,
      cwd_entries = [(''9_log.txt'', File (''line1'' @ [CHR 0x0A]))],
      calls = [Run ''repo@sha'' ''9_case00001''
                 [(''/work'', ''/data/results'', ''rw''), (''/in/BraTS2021_00001'', ''/data'', ''rw'')],
               ListLive, Logs 0 (Some []),
               ListLive, Logs 0 (Some (''line1'' @ [CHR 0x0A])),
               ListLive]\<rparr>"

text \<open>The world at the poll at 120 seconds of the case of the workload that never
  exits, after the drains at 0 and at 60 seconds.\<close>

definition tick_world :: world where
  "tick_world =
     \<lparr>clock = 120, daemon = [(0, busy_inst)], next_id = 1,
      cwd_entries = [(''9_log.txt'', File ''out'')],
      calls = [Run ''repo@sha'' ''9_case00001''
                 [(''/work'', ''/data/results'', ''rw''), (''/in/BraTS2021_00001'', ''/data'', ''rw'')],
               ListLive, Logs 0 (Some ''out''), ListLive, Logs 0 (Some ''out'')]\<rparr>"

section \<open>Termination of the polling loop\<close>

lemma clock_bind:
  "(\<And>w r w'. m w = (r, w') \<Longrightarrow> clock w' = clock w) \<Longrightarrow>
   (\<And>x w r w'. f x w = (r, w') \<Longrightarrow> clock w' = clock w) \<Longrightarrow>
   bind m f w = (r, w') \<Longrightarrow> clock w' = clock w"
  unfolding bind_def
  by (auto split: prod.splits result.splits)

lemma clock_open_w: "open_w n w = (r, w') \<Longrightarrow> clock w' = clock w"
  by (auto simp: open_w_def split: option.splits node.splits)

lemma clock_file_write: "file_write n s w = (r, w') \<Longrightarrow> clock w' = clock w"
  by (auto simp: file_write_def)

lemma clock_lift: "lift x w = (r, w') \<Longrightarrow> clock w' = clock w"
  by (auto simp: lift_def)

lemma clock_getattr: "getattr a n w = (r, w') \<Longrightarrow> clock w' = clock w"
  by (auto simp: getattr_def lift_def)

lemma clock_create_log_file: "create_log_file n t w = (r, w') \<Longrightarrow> clock w' = clock w"
  unfolding create_log_file_def
  apply (erule clock_bind[rotated 2])
   apply (erule clock_open_w)
  apply (auto split: option.splits elim!: clock_file_write)
  apply (erule clock_bind[rotated 2])
   apply (erule clock_lift)
  apply (erule clock_file_write)
  done

lemma clock_store_log_file: "store_log_file n p s w = (r, w') \<Longrightarrow> clock w' = clock w"
  by (auto simp: store_log_file_def bind_def ret_def syn_store_def record_call_def synapse_file_def
      split: result.splits if_splits option.splits)

lemma clock_container_logs: "container_logs c w = (r, w') \<Longrightarrow> clock w' = clock w"
  by (auto simp: container_logs_def record_call_def split: option.splits)

lemma clock_drain_tick: "drain_tick a n c w = (r, w') \<Longrightarrow> clock w' = clock w"
  unfolding drain_tick_def
  apply (erule clock_bind[rotated 2])
   apply (erule clock_container_logs)
  apply (erule clock_bind[rotated 2])
   apply (erule clock_create_log_file)
  apply (erule clock_bind[rotated 2])
   apply (erule clock_getattr)
  apply (erule clock_bind[rotated 2])
   apply (erule clock_getattr)
  apply (erule clock_store_log_file)
  done

text \<open>A tick that goes on to sleep found the elapsed time within a numeric quota, and
  the sleep moves the clock forward: the distance to the quota shrinks.\<close>

lemma monitor_loop_decreases:
  assumes l: "(Ok live, w1) = containers_list w"
    and g: "(Ok quota, w2) = getattr args ''runtime_quota'' w1"
    and c: "py_gt (clock w1 - start_time) quota = Ok False"
    and d: "(Ok (), w3) = drain_tick args log_filename c w2"
  shows "0 < quota_of args - (clock w - start_time) + 60 \<and> clock w < clock (time_sleep 60 w3)"
proof -
  have c1: "clock w1 = clock w"
    using l by (auto simp: containers_list_def record_call_def)
  have c2: "clock w2 = clock w1"
    using g clock_getattr [of args "''runtime_quota''" w1 "Ok quota" w2] by simp
  have c3: "clock w3 = clock w2"
    using d clock_drain_tick [of args log_filename c w2 "Ok ()" w3] by simp
  have q: "args ''runtime_quota'' = Some quota"
    using g by (auto simp: getattr_def lift_def split: option.splits)
  have le: "clock w - start_time \<le> quota_of args"
    using c q c1 by (cases quota) (auto simp: quota_of_def split: if_splits)
  show ?thesis
    using le c1 c2 c3 by (simp add: time_sleep_def)
qed

termination monitor_loop
  apply (relation "measure (\<lambda>(args, log_filename, c, start_time, time_elapsed, w).
                   nat (quota_of args - (clock w - start_time) + 60))")
   apply simp
  apply simp
  apply (erule (3) monitor_loop_decreases)
  done

declare monitor_loop.simps [simp del]

section \<open>Log persistence\<close>

lemma store_log_file_calls:
  "map_of (cwd_entries w) fn = Some nd \<Longrightarrow>
   store_log_file fn parent flag w =
     (if 0 < st_size nd \<and> st_size nd \<le> 50000 \<and> \<not> truthy parent
      then (Raise SynapseMalformedEntityError, w)
      else (Ok (), if 0 < st_size nd \<and> st_size nd \<le> 50000 \<and> \<not> truthy flag
                   then record_call (Store fn nd parent) w else w))"
  by (simp add: store_log_file_def bind_def os_stat_size_def ret_def syn_store_def synapse_file_def)

lemma store_log_file_missing:
  "map_of (cwd_entries w) fn = None \<Longrightarrow>
   store_log_file fn parent flag w = (Raise (FileNotFoundError fn), w)"
  by (simp add: store_log_file_def bind_def os_stat_size_def)

lemma store_calls_record [simp]:
  "store_calls (record_call c w) = store_calls w + (if is_store c then 1 else 0)"
  by (simp add: store_calls_def record_call_def)

text \<open>
  C8. \<^verbatim>\<open>store_log_file\<close> calls the durable store only when the size of the log file is
  strictly greater than 0 and at most 50000 bytes; a log of 0 bytes and a log of 60000
  bytes each add no call to the store.
\<close>

theorem store_only_within_size_range:
  "(store_calls (snd (store_log_file fn parent flag w)) \<noteq> store_calls w
      \<longrightarrow> (\<exists>n. os_stat_size fn w = Ok n \<and> 0 < n \<and> n \<le> 50000))
   \<and> (map_of (cwd_entries w) fn = Some (File c) \<and> (length c = 0 \<or> length c = 60000)
      \<longrightarrow> store_calls (snd (store_log_file fn parent flag w)) = store_calls w)"
proof (cases "map_of (cwd_entries w) fn")
  case None
  then show ?thesis by (simp add: store_log_file_missing)
next
  case (Some nd)
  then show ?thesis
    by (auto simp: store_log_file_calls os_stat_size_def)
qed

theorem store_only_within_size_range_witness:
  "store_calls (snd (store_log_file ''9_log.txt'' (PStr ''syn1'') (PBool False) (world_with_log ''x'')))
     \<noteq> store_calls (world_with_log ''x'')
   \<and> (\<exists>n. os_stat_size ''9_log.txt'' (world_with_log ''x'') = Ok n \<and> 0 < n \<and> n \<le> 50000)
   \<and> store_calls (snd (store_log_file ''9_log.txt'' (PStr ''syn1'') (PBool False) (world_with_log [])))
     = store_calls (world_with_log [])
   \<and> store_calls (snd (store_log_file ''9_log.txt'' (PStr ''syn1'') (PBool False)
        (world_with_log (replicate 60000 (CHR ''x'')))))
     = store_calls (world_with_log (replicate 60000 (CHR ''x'')))"
proof -
  have a: "store_calls (snd (store_log_file ''9_log.txt'' (PStr ''syn1'') (PBool False) (world_with_log ''x'')))
     \<noteq> store_calls (world_with_log ''x'')"
    by (simp add: store_log_file_calls [where nd = "File ''x''"] world_with_log_def)
  have b: "map_of (cwd_entries (world_with_log [])) ''9_log.txt'' = Some (File [])"
    by (simp add: world_with_log_def)
  have c: "map_of (cwd_entries (world_with_log (replicate 60000 (CHR ''x'')))) ''9_log.txt''
           = Some (File (replicate 60000 (CHR ''x'')))"
    by (simp add: world_with_log_def)
  show ?thesis
    using a b c
      store_only_within_size_range [of "''9_log.txt''" "PStr ''syn1''" "PBool False" "world_with_log ''x''" "[]"]
      store_only_within_size_range [of "''9_log.txt''" "PStr ''syn1''" "PBool False" "world_with_log []" "[]"]
      store_only_within_size_range [of "''9_log.txt''" "PStr ''syn1''" "PBool False"
        "world_with_log (replicate 60000 (CHR ''x''))" "replicate 60000 (CHR ''x'')"]
    by simp
qed

text \<open>
  C4. With \<^verbatim>\<open>--store\<close> given, the parsed flag is \<^verbatim>\<open>True\<close>; for a log file of one byte the
  size test passes, and \<^verbatim>\<open>store_log_file\<close> returns without calling the durable store:
  the call sits under \<^verbatim>\<open>if not store\<close>.
\<close>

theorem store_flag_set_stores_nothing:
  "parse_args cli_store ''store'' = Some (PBool True)
   \<and> os_stat_size ''9_log.txt'' (world_with_log ''x'') = Ok 1
   \<and> store_log_file ''9_log.txt'' (PStr ''syn1'') (PBool True) (world_with_log ''x'')
       = (Ok (), world_with_log ''x'')
   \<and> store_calls (snd (store_log_file ''9_log.txt'' (PStr ''syn1'') (PBool True) (world_with_log ''x''))) = 0"
  by (simp add: parse_args_def cli_store_def os_stat_size_def world_with_log_def
      store_log_file_calls [where nd = "File ''x''"] store_calls_def)

text \<open>
  C6. Handed the single byte 0xFF, which is not valid UTF-8, \<^verbatim>\<open>create_log_file\<close> raises
  \<^verbatim>\<open>UnicodeDecodeError\<close> from the strict decoding step, after it has truncated the file.
\<close>

theorem create_log_file_raises_on_stray_byte:
  "create_log_file ''9_log.txt'' (Some (Bytes [CHR 0xFF])) (world_with_log ''old'')
     = (Raise UnicodeDecodeError, world_with_log [])"
  by (simp add: create_log_file_def bind_def open_w_def lift_def decode_utf8_def world_with_log_def)

section \<open>Case enumeration\<close>

lemma folders_of_simps [simp]:
  "folders_of [] = []"
  "folders_of ((r, ds, fs) # ts) = map (path_join r) ds @ folders_of ts"
  "folders_of (xs @ ys) = folders_of xs @ folders_of ys"
  by (simp_all add: folders_of_def)

lemma dir_names_simps [simp]:
  "dir_names [] = []"
  "dir_names ((n, nd) # es) = (if is_dir nd then n # dir_names es else dir_names es)"
  by (simp_all add: dir_names_def)

lemma length_folders_walk:
  "length (folders_of (walk root nd)) = dirs_below nd"
  "length (folders_of (walk_entries root es)) + length (dir_names es) = dirs_among es"
  by (induction root nd and root es rule: walk_walk_entries.induct) auto

lemma path_join_nonempty: "a \<noteq> [] \<Longrightarrow> path_join a b \<noteq> []"
  by (auto simp: path_join_def)

lemma path_join_nonempty': "a \<noteq> [] \<Longrightarrow> [] \<noteq> path_join a b"
  using path_join_nonempty [of a b] by auto

lemma roots_nonempty:
  "root \<noteq> [] \<Longrightarrow> \<forall>(r, ds, fs) \<in> set (walk root nd). r \<noteq> []"
  "root \<noteq> [] \<Longrightarrow> \<forall>(r, ds, fs) \<in> set (walk_entries root es). r \<noteq> []"
  by (induction root nd and root es rule: walk_walk_entries.induct)
     (auto simp: path_join_nonempty)

lemma folders_nonempty:
  assumes "\<forall>(r, ds, fs) \<in> set ts. r \<noteq> []"
  shows "[] \<notin> set (folders_of ts)"
  using assms by (induction ts) (auto simp: path_join_nonempty')

lemma walk_entries_flat:
  "\<forall>(n, nd) \<in> set es. dir_names (entries_of nd) = [] \<Longrightarrow>
   folders_of (walk_entries root es) = []"
proof (induction es)
  case Nil
  then show ?case by simp
next
  case (Cons a es)
  obtain n nd where a: "a = (n, nd)" by (cases a)
  show ?case
  proof (cases nd)
    case (Dir ds)
    with Cons a have "dir_names ds = []" by (simp add: entries_of_def)
    moreover have "folders_of (walk_entries (path_join root n) ds) = []"
      using \<open>dir_names ds = []\<close>
      by (induction ds) (auto split: if_splits)
    ultimately show ?thesis using Cons a Dir by simp
  qed (use Cons a in auto)
qed

lemma case_id_nonempty: "cf \<noteq> [] \<Longrightarrow> case_id_of cf \<noteq> []"
proof -
  assume "cf \<noteq> []"
  then have "length cf - 5 < length cf" by (cases cf) simp_all
  then show ?thesis by (simp add: case_id_of_def)
qed

lemma case_id_facts:
  "length (case_id_of cf) = min 5 (length cf)"
  "cf = take (length cf - 5) cf @ case_id_of cf"
  by (auto simp: case_id_of_def)

lemma folders_walk_top_down:
  "folders_of (walk root nd) = dirs_top_down root nd"
  "folders_of (walk_entries root es) = dirs_top_down_each root es"
proof (induction root nd and root es rule: walk_walk_entries.induct)
  case (5 root n nd es)
  then show ?case by (cases nd) simp_all
qed simp_all

lemma dir_names_mem: "n \<in> set (dir_names es) \<longleftrightarrow> (\<exists>ds. (n, Dir ds) \<in> set es)"
proof (induction es)
  case Nil
  show ?case by simp
next
  case (Cons a es)
  obtain m nd where a: "a = (m, nd)" by (cases a)
  show ?case using Cons a by (cases nd) auto
qed

lemma dirs_top_down_each_mem:
  "q \<in> set (dirs_top_down_each root es) \<longleftrightarrow>
     (\<exists>n ds. (n, Dir ds) \<in> set es \<and> q \<in> set (dirs_top_down (path_join root n) (Dir ds)))"
proof (induction es)
  case Nil
  show ?case by simp
next
  case (Cons a es)
  obtain m nd where a: "a = (m, nd)" by (cases a)
  show ?case using Cons a by (cases nd) auto
qed

lemma dirs_top_down_mem:
  "q \<in> set (dirs_top_down root (Dir es)) \<longleftrightarrow>
     (\<exists>n ds. (n, Dir ds) \<in> set es
        \<and> (q = path_join root n \<or> q \<in> set (dirs_top_down (path_join root n) (Dir ds))))"
proof -
  have "q \<in> set (dirs_top_down root (Dir es)) \<longleftrightarrow>
        (\<exists>n. n \<in> set (dir_names es) \<and> q = path_join root n) \<or> q \<in> set (dirs_top_down_each root es)"
    by (auto simp: image_iff)
  also have "\<dots> \<longleftrightarrow> (\<exists>n ds. (n, Dir ds) \<in> set es \<and> q = path_join root n)
        \<or> (\<exists>n ds. (n, Dir ds) \<in> set es \<and> q \<in> set (dirs_top_down (path_join root n) (Dir ds)))"
    unfolding dir_names_mem dirs_top_down_each_mem by blast
  also have "\<dots> \<longleftrightarrow> (\<exists>n ds. (n, Dir ds) \<in> set es
        \<and> (q = path_join root n \<or> q \<in> set (dirs_top_down (path_join root n) (Dir ds))))"
    by blast
  finally show ?thesis .
qed

text \<open>
  C3 (amended). For an input root that is a directory, the case loop runs once for every
  directory below the root, at any depth: the walk descends. The case folders are the
  paths of these directories, top-down: the immediate subdirectories in listing order,
  then the directories below each of them in turn; a path is a case folder exactly when
  it is an immediate subdirectory or a case folder of the walk of one. Every case
  identifier is non-empty and is the last five characters of the case folder's path
  (the whole path when it is shorter). When no immediate subdirectory holds a directory,
  the case folders are exactly the immediate subdirectories, in listing order.
\<close>

theorem case_folders_every_depth:
  "p \<noteq> [] \<and> path_node e p = Some (Dir es) \<longrightarrow>
     case_folders e p = dirs_top_down p (Dir es)
     \<and> (\<forall>q. q \<in> set (case_folders e p) \<longleftrightarrow>
            (\<exists>n ds. (n, Dir ds) \<in> set es
               \<and> (q = path_join p n \<or> q \<in> set (folders_of (walk (path_join p n) (Dir ds))))))
     \<and> length (case_folders e p) = dirs_among es
     \<and> (\<forall>cf \<in> set (case_folders e p).
           case_id_of cf \<noteq> [] \<and> length (case_id_of cf) = min 5 (length cf)
           \<and> cf = take (length cf - 5) cf @ case_id_of cf)
     \<and> ((\<forall>(n, nd) \<in> set es. dir_names (entries_of nd) = [])
          \<longrightarrow> case_folders e p = map (path_join p) (dir_names es))"
proof (intro impI)
  assume a: "p \<noteq> [] \<and> path_node e p = Some (Dir es)"
  then have p: "p \<noteq> []" and n: "path_node e p = Some (Dir es)"
    by simp_all
  have cf: "case_folders e p = folders_of (walk p (Dir es))"
    using p n by (simp add: case_folders_def os_walk_def folders_of_def)
  have 0: "case_folders e p = dirs_top_down p (Dir es)"
    unfolding cf by (rule folders_walk_top_down(1))
  have m: "\<forall>q. q \<in> set (case_folders e p) \<longleftrightarrow>
            (\<exists>n ds. (n, Dir ds) \<in> set es
               \<and> (q = path_join p n \<or> q \<in> set (folders_of (walk (path_join p n) (Dir ds)))))"
    unfolding 0 folders_walk_top_down(1) by (intro allI) (rule dirs_top_down_mem)
  have 1: "length (case_folders e p) = dirs_among es"
    using length_folders_walk(1) [of p "Dir es"] cf by simp
  have ne: "[] \<notin> set (case_folders e p)"
    unfolding cf by (rule folders_nonempty) (rule roots_nonempty(1) [OF p])
  have 2: "\<forall>cf \<in> set (case_folders e p).
           case_id_of cf \<noteq> [] \<and> length (case_id_of cf) = min 5 (length cf)
           \<and> cf = take (length cf - 5) cf @ case_id_of cf"
  proof
    fix c assume "c \<in> set (case_folders e p)"
    with ne have "c \<noteq> []" by auto
    then have "case_id_of c \<noteq> []" by (rule case_id_nonempty)
    moreover have "length (case_id_of c) = min 5 (length c)"
      by (rule case_id_facts(1))
    moreover have "c = take (length c - 5) c @ case_id_of c"
      by (rule case_id_facts(2))
    ultimately show "case_id_of c \<noteq> [] \<and> length (case_id_of c) = min 5 (length c)
           \<and> c = take (length c - 5) c @ case_id_of c"
      by (intro conjI)
  qed
  have 3: "(\<forall>(n, nd) \<in> set es. dir_names (entries_of nd) = [])
          \<longrightarrow> case_folders e p = map (path_join p) (dir_names es)"
    by (simp add: cf walk_entries_flat)
  from 0 m 1 2 3 show "case_folders e p = dirs_top_down p (Dir es)
     \<and> (\<forall>q. q \<in> set (case_folders e p) \<longleftrightarrow>
            (\<exists>n ds. (n, Dir ds) \<in> set es
               \<and> (q = path_join p n \<or> q \<in> set (folders_of (walk (path_join p n) (Dir ds))))))
     \<and> length (case_folders e p) = dirs_among es
     \<and> (\<forall>cf \<in> set (case_folders e p).
           case_id_of cf \<noteq> [] \<and> length (case_id_of cf) = min 5 (length cf)
           \<and> cf = take (length cf - 5) cf @ case_id_of cf)
     \<and> ((\<forall>(n, nd) \<in> set es. dir_names (entries_of nd) = [])
          \<longrightarrow> case_folders e p = map (path_join p) (dir_names es))"
    by (intro conjI)
qed

theorem case_folders_every_depth_witness:
  "''/in'' \<noteq> [] \<and> path_node (env_with two_cases never_launches) ''/in'' = Some (Dir two_cases)
   \<and> dir_names (entries_of (Dir [(''t1.nii.gz'', File ''a'')])) = []
   \<and> dir_names (entries_of (Dir [(''t1.nii.gz'', File ''b'')])) = []
   \<and> length (case_folders (env_with two_cases never_launches) ''/in'') = 2
   \<and> case_folders (env_with two_cases never_launches) ''/in''
       = [''/in/BraTS2021_00001'', ''/in/BraTS2021_00002'']
   \<and> case_id_of ''/in/BraTS2021_00001'' = ''00001''
   \<and> case_id_of ''/in/BraTS2021_00002'' = ''00002''
   \<and> path_node (env_with two_branches never_launches) ''/in'' = Some (Dir two_branches)
   \<and> dirs_top_down ''/in'' (Dir two_branches) = [''/in/A'', ''/in/B'', ''/in/A/x'', ''/in/B/y'']
   \<and> case_folders (env_with two_branches never_launches) ''/in''
       = [''/in/A'', ''/in/B'', ''/in/A/x'', ''/in/B/y'']"
  using case_folders_every_depth [of "''/in''" "env_with two_cases never_launches" two_cases]
    case_folders_every_depth [of "''/in''" "env_with two_branches never_launches" two_branches]
  by (simp add: env_with_def two_cases_def two_branches_def entries_of_def path_join_def
      case_id_of_def)

text \<open>
  C3, as stated, fails: the root \<^verbatim>\<open>/in\<close> has one immediate subdirectory, \<^verbatim>\<open>A\<close>, which
  holds a directory \<^verbatim>\<open>B\<close>; the case loop runs for \<^verbatim>\<open>/in/A\<close> and for \<^verbatim>\<open>/in/A/B\<close>.
\<close>

theorem nested_directory_is_a_case:
  "path_node env_nested ''/in'' = Some (Dir [(''A'', Dir [(''B'', Dir [])])])
   \<and> dir_names [(''A'', Dir [(''B'', Dir [])])] = [''A'']
   \<and> case_folders env_nested ''/in'' = [''/in/A'', ''/in/A/B'']"
  by (simp add: env_nested_def env_with_def case_folders_def os_walk_def path_join_def file_names_def)

section \<open>Output collection\<close>












section \<open>Runs started from the command line\<close>

lemma main_cli:
  "status c \<noteq> ''INVALID'' \<Longrightarrow>
   main e (parse_args c) w =
     bind (main_cases e (parse_args c) (docker_repository c @ ''@'' @ docker_digest c) (getcwd e)
             (case_folders e (input_dir c)) \<lparr>container = None, errors = None\<rparr>) (\<lambda>loc.
     bind (remove_docker_image (docker_repository c @ ''@'' @ docker_digest c)) (\<lambda>u.
     main_collect)) (record_call Login w)"
  by (simp add: main_def bind_def getattr_def lift_def parse_args_def raise_def)

lemma remove_docker_image_eq:
  "remove_docker_image img w = (Ok (), record_call (RemoveImage img) w)"
  by (simp add: remove_docker_image_def catch_all_def images_remove_def)

lemma case_folders_no_directory:
  "\<forall>es. path_node e p \<noteq> Some (Dir es) \<Longrightarrow> case_folders e p = []"
  by (cases "path_node e p"; cases "the (path_node e p)")
     (auto simp: case_folders_def os_walk_def)

text \<open>
  C7 (amended). If the input root does not exist or is not a directory, no file-system
  error is raised: the walk yields nothing, the case loop does not run and no container
  is launched; the run removes the image and goes on to output collection, whose outcome
  is the outcome of the run.
\<close>

theorem missing_root_goes_to_collection:
  "status c \<noteq> ''INVALID'' \<and> (\<forall>es. path_node e (input_dir c) \<noteq> Some (Dir es)) \<longrightarrow>
   case_folders e (input_dir c) = []
   \<and> main e (parse_args c) w =
       main_collect (record_call (RemoveImage (docker_repository c @ ''@'' @ docker_digest c))
                       (record_call Login w))"
  by (auto simp: main_cli case_folders_no_directory bind_def ret_def remove_docker_image_eq)

theorem missing_root_goes_to_collection_witness:
  "status cli_store \<noteq> ''INVALID''
   \<and> path_node env_missing_root (input_dir cli_store) = None
   \<and> case_folders env_missing_root (input_dir cli_store) = []
   \<and> main env_missing_root (parse_args cli_store) (world_with_files [(''notes.txt'', File ''n'')])
       = (Raise (Exception no_results_message),
          (world_with_files [(''notes.txt'', File ''n'')])\<lparr>calls := [Login, RemoveImage ''repo@sha'']\<rparr>)"
  using missing_root_goes_to_collection
    [of cli_store env_missing_root "world_with_files [(''notes.txt'', File ''n'')]"]
  by (simp add: cli_store_def env_missing_root_def world_with_files_def record_call_def
      main_collect_def glob_nii_def ends_with_def)

text \<open>
  C7, as stated, fails: the input root does not exist, the working directory holds a
  result file, and the run ends without an error.
\<close>

theorem missing_root_run_succeeds:
  "path_node env_missing_root (input_dir cli_store) = None
   \<and> fst (main env_missing_root (parse_args cli_store)
             (world_with_files [(''a.nii.gz'', File ''x'')])) = Ok ()"
proof -
  have s: "status cli_store \<noteq> ''INVALID''"
    by (simp add: cli_store_def)
  have c: "case_folders env_missing_root (input_dir cli_store) = []"
    by (simp add: case_folders_def os_walk_def env_missing_root_def)
  show ?thesis
    by (simp add: main_cli [OF s] c bind_def ret_def remove_docker_image_eq)
       (simp add: env_missing_root_def world_with_files_def record_call_def main_collect_def
          glob_nii_def ends_with_def bind_def ret_def os_mkdir_def os_rename_into_def tar_def compression_of_mode_def)
qed

lemma parse_args_subissionid: "parse_args c ''subissionid'' = None"
  by (simp add: parse_args_def)

lemma main_launch_cli:
  "main_launch e (parse_args c) img out cf loc w = (Raise (AttributeError ''subissionid''), w)"
  by (simp add: main_launch_def bind_def getattr_def lift_def parse_args_subissionid)

lemma main_case_cli:
  "main_case e (parse_args c) img out cf loc w = (Raise (AttributeError ''subissionid''), w)"
  by (simp add: main_case_def bind_def main_launch_cli)

text \<open>
  C5. The parser defines \<^verbatim>\<open>submissionid\<close> and no attribute \<^verbatim>\<open>subissionid\<close>. For every run
  from the command line that passes the status check and has at least one case folder,
  the launch block of the first case raises \<^verbatim>\<open>AttributeError\<close>, which its handler for
  \<^verbatim>\<open>APIError\<close> lets through: the run ends with that error, and the only call made to a
  collaborator is the registry login, so no container was launched.
\<close>

theorem cli_run_aborts_at_first_case:
  "status c \<noteq> ''INVALID'' \<and> case_folders e (input_dir c) \<noteq> [] \<longrightarrow>
     parse_args c ''subissionid'' = None
     \<and> parse_args c ''submissionid'' = Some (PStr (submissionid c))
     \<and> main_launch e (parse_args c) img out cf loc w = (Raise (AttributeError ''subissionid''), w)
     \<and> main e (parse_args c) w = (Raise (AttributeError ''subissionid''), record_call Login w)"
proof (intro impI)
  assume a: "status c \<noteq> ''INVALID'' \<and> case_folders e (input_dir c) \<noteq> []"
  then obtain cf' rest where cfs: "case_folders e (input_dir c) = cf' # rest"
    by (cases "case_folders e (input_dir c)") auto
  have "main e (parse_args c) w = (Raise (AttributeError ''subissionid''), record_call Login w)"
    using a by (simp add: main_cli cfs bind_def main_case_cli)
  moreover have "parse_args c ''submissionid'' = Some (PStr (submissionid c))"
    by (simp add: parse_args_def)
  ultimately show "parse_args c ''subissionid'' = None
     \<and> parse_args c ''submissionid'' = Some (PStr (submissionid c))
     \<and> main_launch e (parse_args c) img out cf loc w = (Raise (AttributeError ''subissionid''), w)
     \<and> main e (parse_args c) w = (Raise (AttributeError ''subissionid''), record_call Login w)"
    by (simp add: parse_args_subissionid main_launch_cli)
qed


theorem cli_run_aborts_at_first_case_witness:
  "status cli_store \<noteq> ''INVALID''
   \<and> case_folders (env_with two_cases never_launches) (input_dir cli_store) \<noteq> []
   \<and> main (env_with two_cases never_launches) (parse_args cli_store) (world_with_files [])
       = (Raise (AttributeError ''subissionid''), (world_with_files [])\<lparr>calls := [Login]\<rparr>)"
  using cli_run_aborts_at_first_case
    [of cli_store "env_with two_cases never_launches" "[]" "[]" "[]"
        "\<lparr>container = None, errors = None\<rparr>" "world_with_files []"]
  by (simp add: cli_store_def env_with_def two_cases_def case_folders_def os_walk_def
      world_with_files_def record_call_def)

section \<open>The per-case pipeline\<close>

lemma args_with_simps [simp]:
  "args_with q ''status'' = Some (PStr ''VALIDATED'')"
  "args_with q ''synapse_config'' = Some (PStr ''cfg'')"
  "args_with q ''docker_repository'' = Some (PStr ''repo'')"
  "args_with q ''docker_digest'' = Some (PStr ''sha'')"
  "args_with q ''input_dir'' = Some (PStr ''/in'')"
  "args_with q ''subissionid'' = Some (PStr ''9'')"
  "args_with q ''submissionid'' = Some (PStr ''9'')"
  "args_with q ''runtime_quota'' = Some q"
  "args_with q ''parentid'' = Some (PStr ''syn1'')"
  "args_with q ''store'' = Some (PBool True)"
  by (simp_all add: args_with_def parse_args_def cli_store_def)

lemma env_with_sel [simp]:
  "getcwd (env_with es s) = ''/work''"
  "launch_script (env_with es s) = s"
  by (simp_all add: env_with_def)

lemma two_cases_folders:
  "case_folders (env_with two_cases s) ''/in'' = [''/in/BraTS2021_00001'', ''/in/BraTS2021_00002'']"
  by (simp add: env_with_def two_cases_def case_folders_def os_walk_def path_join_def)

lemma volumes_eval:
  "volumes_of ''/work'' ''/in/BraTS2021_00001'' =
     [(''/work'', ''/data/results'', ''rw''), (''/in/BraTS2021_00001'', ''/data'', ''rw'')]"
  by (simp add: volumes_of_def mounted_volumes_def)

lemma main_args_with:
  "main e (args_with q) w =
     bind (main_cases e (args_with q) ''repo@sha'' (getcwd e) (case_folders e ''/in'')
             \<lparr>container = None, errors = None\<rparr>) (\<lambda>loc.
     bind (remove_docker_image ''repo@sha'') (\<lambda>u. main_collect)) (record_call Login w)"
  by (simp add: main_def bind_def getattr_def lift_def raise_def)

text \<open>
  C1. The runtime fails every \<^verbatim>\<open>run\<close> with an \<^verbatim>\<open>APIError\<close>; the namespace has the
  attribute the launch reads. For the first case the handler calls the cleanup once
  (one \<^verbatim>\<open>get\<close> for the attempted name), and then \<^verbatim>\<open>if container is not None\<close> reads a name
  that was never bound: \<^verbatim>\<open>UnboundLocalError\<close> leaves \<^verbatim>\<open>main\<close>, and the second case is
  never started.
\<close>

theorem launch_failure_escapes:
  "main (env_with two_cases never_launches) (args_with (PInt 90)) (world_with_files [])
   = (Raise (UnboundLocalError ''container''),
      \<lparr>clock = 0, daemon = [], next_id = 0, cwd_entries = [(''9_log.txt'', File [])],
       calls = [Login,
                Run ''repo@sha'' ''9_case00001''
                  [(''/work'', ''/data/results'', ''rw''), (''/in/BraTS2021_00001'', ''/data'', ''rw'')],
                Get ''9_case00001'']\<rparr>)"
proof -
  have first: "main_case (env_with two_cases never_launches) (args_with (PInt 90)) ''repo@sha'' ''/work''
          ''/in/BraTS2021_00001'' \<lparr>container = None, errors = None\<rparr>
          (record_call Login (world_with_files []))
        = (Raise (UnboundLocalError ''container''),
      \<lparr>clock = 0, daemon = [], next_id = 0, cwd_entries = [(''9_log.txt'', File [])],
       calls = [Login,
                Run ''repo@sha'' ''9_case00001''
                  [(''/work'', ''/data/results'', ''rw''), (''/in/BraTS2021_00001'', ''/data'', ''rw'')],
                Get ''9_case00001'']\<rparr>)"
    by (simp add: main_case_def main_launch_def bind_def getattr_def lift_def raise_def Let_def
      case_id_of_def volumes_eval containers_run_def
      record_call_def never_launches_def remove_docker_container_def catch_all_def
      containers_get_def ret_def open_w_def world_with_files_def)
  show ?thesis
    by (simp add: main_args_with two_cases_folders bind_def first)
qed

subsection \<open>Normalised text\<close>

lemma ascii_ignore_str_of:
  "ascii_ignore (str_of s) = filter (\<lambda>c. (of_char c :: nat) < 128) s"
  by (induction s) (simp_all add: ascii_ignore_def str_of_def)

lemma decode_ascii:
  "\<forall>b \<in> set bs. b < 128 \<Longrightarrow> decode_points bs = Ok bs"
  by (induction bs) simp_all

lemma decode_utf8_ascii:
  "\<forall>c \<in> set s. (of_char c :: nat) < 128 \<Longrightarrow> decode_utf8 s = Ok (str_of s)"
  by (simp add: decode_utf8_def str_of_def decode_ascii)

lemma ascii_ignore_ascii:
  "\<forall>c \<in> set s. (of_char c :: nat) < 128 \<Longrightarrow> ascii_ignore (str_of s) = s"
  by (simp add: ascii_ignore_str_of filter_id_conv)

lemma open_w_file:
  "\<forall>es. map_of (cwd_entries w) fn \<noteq> Some (Dir es) \<Longrightarrow>
   open_w fn w = (Ok (), w\<lparr>cwd_entries := AList.update fn (File []) (cwd_entries w)\<rparr>)"
  by (auto simp: open_w_def split: option.splits node.splits)

lemma open_w_dir:
  "map_of (cwd_entries w) fn = Some (Dir es) \<Longrightarrow> open_w fn w = (Raise (IsADirectoryError fn), w)"
  by (simp add: open_w_def)

lemma create_log_file_str:
  assumes "\<forall>es. map_of (cwd_entries w) fn \<noteq> Some (Dir es)"
  shows "create_log_file fn (Some (Str s)) w =
           (Ok (), w\<lparr>cwd_entries := AList.update fn (File (ascii_ignore s)) (cwd_entries w)\<rparr>)"
  by (simp add: create_log_file_def bind_def open_w_file [OF assms] lift_def file_write_def update_conv')

lemma create_log_file_bytes:
  assumes "\<forall>es. map_of (cwd_entries w) fn \<noteq> Some (Dir es)" and "decode_utf8 b = Ok u"
  shows "create_log_file fn (Some (Bytes b)) w =
           (Ok (), w\<lparr>cwd_entries := AList.update fn (File (ascii_ignore u)) (cwd_entries w)\<rparr>)"
  using assms(2)
  by (simp add: create_log_file_def bind_def open_w_file [OF assms(1)] lift_def file_write_def update_conv')

lemma create_log_file_ascii:
  assumes "\<forall>c \<in> set b. (of_char c :: nat) < 128"
    and "\<forall>es. map_of (cwd_entries w) fn \<noteq> Some (Dir es)"
  shows "create_log_file fn (Some (Bytes b)) w =
           (Ok (), w\<lparr>cwd_entries := AList.update fn (File b) (cwd_entries w)\<rparr>)"
  using create_log_file_bytes [OF assms(2) decode_utf8_ascii [OF assms(1)]]
  by (simp add: ascii_ignore_ascii [OF assms(1)])

text \<open>A drain that returns has replaced whatever the file held.\<close>

lemma create_log_file_replaces:
  assumes "create_log_file fn (Some (Bytes b)) w = (Ok (), w')"
  shows "\<exists>u. decode_utf8 b = Ok u \<and> map_of (cwd_entries w') fn = Some (File (ascii_ignore u))"
proof (cases "\<exists>es. map_of (cwd_entries w) fn = Some (Dir es)")
  case True
  then show ?thesis
    using assms by (auto simp: create_log_file_def bind_def open_w_dir)
next
  case False
  then have nd: "\<forall>es. map_of (cwd_entries w) fn \<noteq> Some (Dir es)" by simp
  show ?thesis
  proof (cases "decode_utf8 b")
    case (Ok u)
    then show ?thesis
      using assms create_log_file_bytes [OF nd Ok] by (auto simp: update_conv')
  next
    case (Raise e)
    then show ?thesis
      using assms by (simp add: create_log_file_def bind_def open_w_file [OF nd] lift_def)
  qed
qed

lemma create_log_file_str_replaces:
  assumes "create_log_file fn (Some (Str t)) w = (Ok (), w')"
  shows "map_of (cwd_entries w') fn = Some (File (ascii_ignore t)) \<and> calls w' = calls w"
proof (cases "\<exists>es. map_of (cwd_entries w) fn = Some (Dir es)")
  case True
  then show ?thesis
    using assms by (auto simp: create_log_file_def bind_def open_w_dir)
next
  case False
  then have nd: "\<forall>es. map_of (cwd_entries w) fn \<noteq> Some (Dir es)" by simp
  show ?thesis
    using assms create_log_file_str [OF nd, of t] by (auto simp: update_conv')
qed

lemma create_log_file_calls:
  "create_log_file fn t w = (r, w') \<Longrightarrow> calls w' = calls w"
  by (auto simp: create_log_file_def bind_def open_w_def lift_def file_write_def
      split: option.splits node.splits log_text.splits result.splits prod.splits)

lemma store_log_file_effect:
  assumes "store_log_file fn p f w = (Ok (), w')"
  shows "cwd_entries w' = cwd_entries w
         \<and> (calls w' = calls w \<or> (\<exists>nd. calls w' = calls w @ [Store fn nd p]))"
proof (cases "map_of (cwd_entries w) fn")
  case None
  then show ?thesis using assms by (simp add: store_log_file_missing)
next
  case (Some nd)
  then show ?thesis
    using assms by (auto simp: store_log_file_calls record_call_def split: if_splits)
qed

lemma container_remove_effect:
  "container_remove c w = (Ok (), w') \<Longrightarrow>
   cwd_entries w' = cwd_entries w \<and> calls w' = calls w @ [Remove c]"
  by (auto simp: container_remove_def record_call_def split: option.splits if_splits)

lemma container_logs_effect:
  "container_logs c w = (Ok b, w') \<Longrightarrow> w' = record_call (Logs c (Some b)) w"
  by (auto simp: container_logs_def split: option.splits)

text \<open>A pass through the body of the polling loop that returns leaves the normalisation
  of the snapshot it read in the log file, whatever the file held; and so does any
  number of polls of the loop, for the last snapshot read.\<close>

lemma last_logs_append:
  "last_logs (xs @ ys) = (if filter is_logs ys = [] then last_logs xs else last_logs ys)"
  by (auto simp: last_logs_def split: list.splits)

lemma last_logs_simps [simp]:
  "last_logs [] = None"
  "last_logs (Logs c s # cs) = (if filter is_logs cs = [] then Some (Logs c s) else last_logs cs)"
  "\<not> is_logs x \<Longrightarrow> last_logs (x # cs) = last_logs cs"
  by (auto simp: last_logs_def split: list.splits)

lemma drain_tick_replaces:
  assumes "drain_tick args fn c w = (Ok (), w')"
  shows "\<exists>b u new. calls w' = calls w @ new \<and> last_logs new = Some (Logs c (Some b))
           \<and> fst (container_logs c w) = Ok b \<and> decode_utf8 b = Ok u
           \<and> map_of (cwd_entries w') fn = Some (File (ascii_ignore u))"
proof -
  from assms obtain b w1 w2 p f
    where lg: "container_logs c w = (Ok b, w1)"
      and cr: "create_log_file fn (Some (Bytes b)) w1 = (Ok (), w2)"
      and st: "store_log_file fn p f w2 = (Ok (), w')"
    by (auto simp: drain_tick_def bind_def getattr_def lift_def
        split: result.splits prod.splits option.splits)
  from create_log_file_replaces [OF cr] obtain u
    where u: "decode_utf8 b = Ok u" and c2: "map_of (cwd_entries w2) fn = Some (File (ascii_ignore u))"
    by blast
  have k1: "calls w1 = calls w @ [Logs c (Some b)]"
    using container_logs_effect [OF lg] by (simp add: record_call_def)
  have k2: "calls w2 = calls w1"
    using cr by (rule create_log_file_calls)
  from store_log_file_effect [OF st]
  have e: "cwd_entries w' = cwd_entries w2"
    and k3: "calls w' = calls w2 \<or> (\<exists>nd. calls w' = calls w2 @ [Store fn nd p])"
    by simp_all
  from k3 have "\<exists>new. calls w' = calls w @ new \<and> last_logs new = Some (Logs c (Some b))"
  proof
    assume "calls w' = calls w2"
    then have "calls w' = calls w @ [Logs c (Some b)]" by (simp add: k1 k2)
    then show ?thesis by (intro exI [of _ "[Logs c (Some b)]"]) simp
  next
    assume "\<exists>nd. calls w' = calls w2 @ [Store fn nd p]"
    then obtain nd where "calls w' = calls w @ [Logs c (Some b), Store fn nd p]"
      by (auto simp: k1 k2)
    then show ?thesis by (intro exI [of _ "[Logs c (Some b), Store fn nd p]"]) simp
  qed
  then show ?thesis
    using lg u c2 e by auto
qed

lemma monitor_loop_drains:
  "monitor_loop args fn c start_time te w = (Ok te', w') \<Longrightarrow>
   \<exists>new. calls w' = calls w @ new
     \<and> ((filter is_logs new = [] \<and> cwd_entries w' = cwd_entries w)
        \<or> (\<exists>b u. last_logs new = Some (Logs c (Some b)) \<and> decode_utf8 b = Ok u
               \<and> map_of (cwd_entries w') fn = Some (File (ascii_ignore u))))"
proof (induction args fn c start_time te w arbitrary: te' w' rule: monitor_loop.induct)
  case (1 args fn c start_time te w)
  let ?w1 = "record_call ListLive w"
  have l: "containers_list w = (Ok (live_ids w), ?w1)"
    by (simp add: containers_list_def)
  show ?case
  proof (cases "c \<in> set (live_ids w)")
    case False
    from "1.prems" have "w' = ?w1"
      by (subst (asm) monitor_loop.simps) (simp add: l False)
    then have "calls w' = calls w @ [ListLive] \<and> cwd_entries w' = cwd_entries w"
      by (simp add: record_call_def)
    then show ?thesis by (intro exI [of _ "[ListLive]"]) simp
  next
    case True
    from "1.prems" obtain quota where q: "args ''runtime_quota'' = Some quota"
      by (subst (asm) monitor_loop.simps)
         (auto simp: l True getattr_def lift_def split: option.splits)
    then have g: "getattr args ''runtime_quota'' ?w1 = (Ok quota, ?w1)"
      by (simp add: getattr_def lift_def)
    from "1.prems" obtain over where over: "py_gt (clock ?w1 - start_time) quota = Ok over"
      by (subst (asm) monitor_loop.simps)
         (auto simp: l True g split: result.splits)
    show ?thesis
    proof (cases over)
      case True
      from "1.prems" have st: "container_stop c ?w1 = (Ok (), w')"
        by (subst (asm) monitor_loop.simps)
           (auto simp: l \<open>c \<in> set (live_ids w)\<close> g over True split: result.splits prod.splits)
      then have "calls w' = calls w @ [ListLive, Stop c] \<and> cwd_entries w' = cwd_entries w"
        by (auto simp: container_stop_def record_call_def split: option.splits if_splits)
      then show ?thesis by (intro exI [of _ "[ListLive, Stop c]"]) simp
    next
      case False
      from "1.prems" obtain w3 where d: "drain_tick args fn c ?w1 = (Ok (), w3)"
        and r: "monitor_loop args fn c start_time (clock ?w1 - start_time) (time_sleep 60 w3) = (Ok te', w')"
        by (subst (asm) monitor_loop.simps)
           (auto simp: l \<open>c \<in> set (live_ids w)\<close> g over False split: result.splits prod.splits)
      from drain_tick_replaces [OF d] obtain b u new1
        where n1: "calls w3 = calls ?w1 @ new1" and ll: "last_logs new1 = Some (Logs c (Some b))"
          and u: "decode_utf8 b = Ok u"
          and c3: "map_of (cwd_entries w3) fn = Some (File (ascii_ignore u))"
        by blast
      have ih: "\<exists>new. calls w' = calls (time_sleep 60 w3) @ new
     \<and> ((filter is_logs new = [] \<and> cwd_entries w' = cwd_entries (time_sleep 60 w3))
        \<or> (\<exists>b u. last_logs new = Some (Logs c (Some b)) \<and> decode_utf8 b = Ok u
               \<and> map_of (cwd_entries w') fn = Some (File (ascii_ignore u))))"
      proof -
        have ov: "over = False" using False by simp
        show ?thesis
          using "1.IH" [OF l [symmetric] refl \<open>c \<in> set (live_ids w)\<close> g [symmetric] refl over ov
              d [symmetric] refl r] .
      qed
      then obtain new2 where n2: "calls w' = calls w3 @ new2"
        and alt: "(filter is_logs new2 = [] \<and> cwd_entries w' = cwd_entries w3)
        \<or> (\<exists>b u. last_logs new2 = Some (Logs c (Some b)) \<and> decode_utf8 b = Ok u
               \<and> map_of (cwd_entries w') fn = Some (File (ascii_ignore u)))"
        by (auto simp: time_sleep_def)
      have all: "calls w' = calls w @ (ListLive # new1 @ new2)"
        using n1 n2 by (simp add: record_call_def)
      from alt have "\<exists>b u. last_logs (ListLive # new1 @ new2) = Some (Logs c (Some b))
               \<and> decode_utf8 b = Ok u
               \<and> map_of (cwd_entries w') fn = Some (File (ascii_ignore u))"
      proof
        assume "filter is_logs new2 = [] \<and> cwd_entries w' = cwd_entries w3"
        then show ?thesis using ll u c3 by (auto simp: last_logs_append)
      next
        assume "\<exists>b u. last_logs new2 = Some (Logs c (Some b)) \<and> decode_utf8 b = Ok u
               \<and> map_of (cwd_entries w') fn = Some (File (ascii_ignore u))"
        then obtain b' u' where "last_logs new2 = Some (Logs c (Some b'))" "decode_utf8 b' = Ok u'"
          "map_of (cwd_entries w') fn = Some (File (ascii_ignore u'))"
          by blast
        moreover from this(1) have "filter is_logs new2 \<noteq> []"
          by (auto simp: last_logs_def)
        ultimately show ?thesis by (auto simp: last_logs_append)
      qed
      with all show ?thesis by blast
    qed
  qed
qed

text \<open>When the monitoring branch returns, the log file holds the quota message or the
  normalisation of the snapshot that the last call for the logs returned, however many
  drains the polling loop made before.\<close>

lemma main_monitor_final:
  assumes run: "main_monitor args fn case_id c start_time te w = (Ok (), w')"
  shows "(\<exists>q. args ''runtime_quota'' = Some q
            \<and> map_of (cwd_entries w') fn = Some (File (ascii_ignore (str_of (quota_message q case_id)))))
         \<or> (\<exists>b u pre post. calls w' = pre @ Logs c (Some b) # post
               \<and> (\<forall>e \<in> set post. \<not> is_logs e)
               \<and> decode_utf8 b = Ok u
               \<and> map_of (cwd_entries w') fn = Some (File (ascii_ignore u)))"
proof -
  from run obtain te' wl where loop: "monitor_loop args fn c start_time te w = (Ok te', wl)"
    by (auto simp: main_monitor_def bind_def split: prod.splits result.splits)
  from run loop obtain q where q: "args ''runtime_quota'' = Some q"
    by (auto simp: main_monitor_def bind_def getattr_def lift_def split: option.splits)
  from run loop q obtain over where over: "py_gt te' q = Ok over"
    by (auto simp: main_monitor_def bind_def getattr_def lift_def split: result.splits)
  from run loop q over obtain p where p: "args ''parentid'' = Some p"
    by (cases "args ''parentid''")
       (auto simp: main_monitor_def bind_def getattr_def lift_def ret_def
          split: result.splits prod.splits if_splits)
  from run loop q over p obtain f where f: "args ''store'' = Some f"
    by (cases "args ''store''")
       (auto simp: main_monitor_def bind_def getattr_def lift_def ret_def
          split: result.splits prod.splits if_splits)
  show ?thesis
  proof (cases over)
    case True
    let ?t = "str_of (quota_message q case_id)"
    from run loop q over p f True obtain w2 w3
      where cr: "create_log_file fn (Some (Str ?t)) wl = (Ok (), w2)"
        and st: "store_log_file fn p f w2 = (Ok (), w3)"
        and rm: "container_remove c w3 = (Ok (), w')"
      by (auto simp: main_monitor_def bind_def getattr_def lift_def ret_def
          split: result.splits prod.splits)
    have "map_of (cwd_entries w2) fn = Some (File (ascii_ignore ?t))"
      using create_log_file_str_replaces [OF cr] by simp
    then have "map_of (cwd_entries w') fn = Some (File (ascii_ignore ?t))"
      using store_log_file_effect [OF st] container_remove_effect [OF rm] by simp
    with q show ?thesis by blast
  next
    case False
    from run loop q over p f False obtain b w1 w2 w3
      where lg: "container_logs c wl = (Ok b, w1)"
        and cr: "create_log_file fn (Some (Bytes b)) w1 = (Ok (), w2)"
        and st: "store_log_file fn p f w2 = (Ok (), w3)"
        and rm: "container_remove c w3 = (Ok (), w')"
      by (auto simp: main_monitor_def bind_def getattr_def lift_def ret_def
          split: result.splits prod.splits)
    from create_log_file_replaces [OF cr] obtain u
      where u: "decode_utf8 b = Ok u" and c2: "map_of (cwd_entries w2) fn = Some (File (ascii_ignore u))"
      by blast
    have c': "map_of (cwd_entries w') fn = Some (File (ascii_ignore u))"
      using c2 store_log_file_effect [OF st] container_remove_effect [OF rm] by simp
    have k1: "calls w1 = calls wl @ [Logs c (Some b)]"
      using container_logs_effect [OF lg] by (simp add: record_call_def)
    have k2: "calls w2 = calls w1"
      using cr by (rule create_log_file_calls)
    from store_log_file_effect [OF st] container_remove_effect [OF rm]
    have "calls w' = calls w2 @ [Remove c] \<or> (\<exists>nd. calls w' = calls w2 @ [Store fn nd p, Remove c])"
      by auto
    then have "\<exists>post. calls w' = calls wl @ Logs c (Some b) # post \<and> (\<forall>e \<in> set post. \<not> is_logs e)"
      using k1 k2 by auto
    with u c' show ?thesis by blast
  qed
qed

lemma exit_between_ticks_case:
  "main_case (env_with one_case exits_between_ticks) (args_with (PInt 1000)) ''repo@sha'' ''/work''
      ''/in/BraTS2021_00001'' \<lparr>container = None, errors = None\<rparr> (world_with_files [])
   = (Ok \<lparr>container = Some 0, errors = None\<rparr>, after_exit_between_ticks)"
  apply (simp add: main_case_def main_launch_def bind_def getattr_def lift_def raise_def Let_def
      case_id_of_def volumes_eval containers_run_def record_call_def register_def
      exits_between_ticks_def ret_def open_w_def world_with_files_def main_monitor_def)
  apply (subst monitor_loop.simps)
  apply (simp add: containers_list_def live_ids_def inst_running_def record_call_def getattr_def lift_def
      drain_tick_def bind_def container_logs_def age_def create_log_file_ascii
      store_log_file_def synapse_file_def os_stat_size_def ret_def time_sleep_def)
  apply (subst monitor_loop.simps)
  apply (simp add: containers_list_def live_ids_def inst_running_def record_call_def getattr_def lift_def
      drain_tick_def bind_def container_logs_def age_def create_log_file_ascii
      store_log_file_def synapse_file_def os_stat_size_def ret_def time_sleep_def)
  apply (subst monitor_loop.simps)
  apply (simp add: containers_list_def live_ids_def inst_running_def record_call_def getattr_def lift_def
      bind_def container_logs_def age_def create_log_file_ascii
      store_log_file_def synapse_file_def os_stat_size_def ret_def
      container_remove_def after_exit_between_ticks_def)
  done

lemma exit_between_ticks_loop:
  "monitor_loop (args_with (PInt 1000)) ''9_log.txt'' 0 0 0
      (launched_world\<lparr>daemon := [(0, slow_inst)]\<rparr>)
   = (Ok 60, after_two_polls)"
  apply (simp add: launched_world_def slow_inst_def)
  apply (subst monitor_loop.simps)
  apply (simp add: containers_list_def live_ids_def inst_running_def record_call_def getattr_def lift_def
      drain_tick_def bind_def container_logs_def age_def create_log_file_ascii
      store_log_file_def synapse_file_def os_stat_size_def ret_def time_sleep_def)
  apply (subst monitor_loop.simps)
  apply (simp add: containers_list_def live_ids_def inst_running_def record_call_def getattr_def lift_def
      drain_tick_def bind_def container_logs_def age_def create_log_file_ascii
      store_log_file_def synapse_file_def os_stat_size_def ret_def time_sleep_def)
  apply (subst monitor_loop.simps)
  apply (simp add: containers_list_def live_ids_def inst_running_def record_call_def
      after_two_polls_def slow_inst_def)
  done

lemma exit_between_ticks_monitor:
  "main_monitor (args_with (PInt 1000)) ''9_log.txt'' ''00001'' 0 0 0
      (launched_world\<lparr>daemon := [(0, slow_inst)]\<rparr>)
   = (Ok (), after_exit_between_ticks)"
  by (simp add: main_monitor_def bind_def exit_between_ticks_loop)
     (simp add: after_two_polls_def slow_inst_def getattr_def lift_def record_call_def
        container_logs_def age_def create_log_file_ascii store_log_file_def synapse_file_def
        os_stat_size_def ret_def bind_def container_remove_def inst_running_def
        after_exit_between_ticks_def)

lemma drain_after_a_minute:
  "drain_tick (args_with (PInt 1000)) ''9_log.txt'' 0 drain_world
   = (Ok (), drain_world\<lparr>cwd_entries := [(''9_log.txt'', File (''line1'' @ [CHR 0x0A]))],
                          calls := [Logs 0 (Some (''line1'' @ [CHR 0x0A]))]\<rparr>)"
  by (simp add: drain_tick_def bind_def drain_world_def slow_inst_def container_logs_def age_def
      record_call_def create_log_file_ascii getattr_def lift_def store_log_file_def
      synapse_file_def os_stat_size_def ret_def)

text \<open>
  C9. Each drain replaces the captured text. Whatever the log file held before,
  \<^verbatim>\<open>create_log_file\<close> on a snapshot leaves exactly the normalisation of that snapshot; so
  does a pass through the body of the polling loop, for the snapshot that
  \<^verbatim>\<open>container.logs()\<close> returned to it; after any number of polls that drained, and at the
  end of the monitoring of a case that ends without the quota message, the file holds
  exactly the normalisation of the last snapshot read, not a concatenation of the
  drains. For the workload that exits between two polls with the output
  \<^verbatim>\<open>line1\nline2\<close>, the case runs three drains (two polls and the final one) and ends with
  the log file holding exactly \<^verbatim>\<open>line1\nline2\<close>.
\<close>

theorem drains_replace:
  "(create_log_file fn (Some (Bytes b)) w = (Ok (), w') \<longrightarrow>
      (\<exists>u. decode_utf8 b = Ok u \<and> map_of (cwd_entries w') fn = Some (File (ascii_ignore u))))
   \<and> (drain_tick args fn c d = (Ok (), d') \<longrightarrow>
        (\<exists>b u new. calls d' = calls d @ new \<and> last_logs new = Some (Logs c (Some b))
           \<and> fst (container_logs c d) = Ok b \<and> decode_utf8 b = Ok u
           \<and> map_of (cwd_entries d') fn = Some (File (ascii_ignore u))))
   \<and> (monitor_loop args fn c start_time te l = (Ok te', l') \<longrightarrow>
        (\<exists>new. calls l' = calls l @ new
           \<and> ((filter is_logs new = [] \<and> cwd_entries l' = cwd_entries l)
              \<or> (\<exists>b u. last_logs new = Some (Logs c (Some b)) \<and> decode_utf8 b = Ok u
                     \<and> map_of (cwd_entries l') fn = Some (File (ascii_ignore u))))))
   \<and> (main_monitor args fn case_id c start_time te v = (Ok (), v') \<longrightarrow>
        (\<exists>q. args ''runtime_quota'' = Some q
            \<and> map_of (cwd_entries v') fn = Some (File (ascii_ignore (str_of (quota_message q case_id)))))
        \<or> (\<exists>b u pre post. calls v' = pre @ Logs c (Some b) # post
               \<and> (\<forall>e \<in> set post. \<not> is_logs e)
               \<and> decode_utf8 b = Ok u
               \<and> map_of (cwd_entries v') fn = Some (File (ascii_ignore u))))
   \<and> main_case (env_with one_case exits_between_ticks) (args_with (PInt 1000)) ''repo@sha'' ''/work''
        ''/in/BraTS2021_00001'' \<lparr>container = None, errors = None\<rparr> (world_with_files [])
       = (Ok \<lparr>container = Some 0, errors = None\<rparr>, after_exit_between_ticks)
   \<and> map_of (cwd_entries after_exit_between_ticks) ''9_log.txt''
       = Some (File (''line1'' @ [CHR 0x0A] @ ''line2''))
   \<and> length (filter is_logs (calls after_exit_between_ticks)) = 3"
proof (intro conjI impI)
  assume "create_log_file fn (Some (Bytes b)) w = (Ok (), w')"
  then show "\<exists>u. decode_utf8 b = Ok u \<and> map_of (cwd_entries w') fn = Some (File (ascii_ignore u))"
    by (rule create_log_file_replaces)
next
  assume "drain_tick args fn c d = (Ok (), d')"
  then show "\<exists>b u new. calls d' = calls d @ new \<and> last_logs new = Some (Logs c (Some b))
           \<and> fst (container_logs c d) = Ok b \<and> decode_utf8 b = Ok u
           \<and> map_of (cwd_entries d') fn = Some (File (ascii_ignore u))"
    by (rule drain_tick_replaces)
next
  assume "monitor_loop args fn c start_time te l = (Ok te', l')"
  then show "\<exists>new. calls l' = calls l @ new
           \<and> ((filter is_logs new = [] \<and> cwd_entries l' = cwd_entries l)
              \<or> (\<exists>b u. last_logs new = Some (Logs c (Some b)) \<and> decode_utf8 b = Ok u
                     \<and> map_of (cwd_entries l') fn = Some (File (ascii_ignore u))))"
    by (rule monitor_loop_drains)
next
  assume "main_monitor args fn case_id c start_time te v = (Ok (), v')"
  then show "(\<exists>q. args ''runtime_quota'' = Some q
            \<and> map_of (cwd_entries v') fn = Some (File (ascii_ignore (str_of (quota_message q case_id)))))
        \<or> (\<exists>b u pre post. calls v' = pre @ Logs c (Some b) # post
               \<and> (\<forall>e \<in> set post. \<not> is_logs e)
               \<and> decode_utf8 b = Ok u
               \<and> map_of (cwd_entries v') fn = Some (File (ascii_ignore u)))"
    by (rule main_monitor_final)
next
  show "main_case (env_with one_case exits_between_ticks) (args_with (PInt 1000)) ''repo@sha'' ''/work''
        ''/in/BraTS2021_00001'' \<lparr>container = None, errors = None\<rparr> (world_with_files [])
       = (Ok \<lparr>container = Some 0, errors = None\<rparr>, after_exit_between_ticks)"
    by (rule exit_between_ticks_case)
next
  show "map_of (cwd_entries after_exit_between_ticks) ''9_log.txt''
       = Some (File (''line1'' @ [CHR 0x0A] @ ''line2''))"
    by (simp add: after_exit_between_ticks_def)
next
  show "length (filter is_logs (calls after_exit_between_ticks)) = 3"
    by (simp add: after_exit_between_ticks_def)
qed

theorem drains_replace_witness:
  "create_log_file ''9_log.txt'' (Some (Bytes (''line1'' @ [CHR 0x0A] @ ''line2'')))
       (world_with_log (''line1'' @ [CHR 0x0A]))
     = (Ok (), world_with_log (''line1'' @ [CHR 0x0A] @ ''line2''))
   \<and> drain_tick (args_with (PInt 1000)) ''9_log.txt'' 0 drain_world
       = (Ok (), drain_world\<lparr>cwd_entries := [(''9_log.txt'', File (''line1'' @ [CHR 0x0A]))],
                              calls := [Logs 0 (Some (''line1'' @ [CHR 0x0A]))]\<rparr>)
   \<and> monitor_loop (args_with (PInt 1000)) ''9_log.txt'' 0 0 0
        (launched_world\<lparr>daemon := [(0, slow_inst)]\<rparr>)
       = (Ok 60, after_two_polls)
   \<and> last_logs (calls after_two_polls) = Some (Logs 0 (Some (''line1'' @ [CHR 0x0A])))
   \<and> map_of (cwd_entries after_two_polls) ''9_log.txt'' = Some (File (''line1'' @ [CHR 0x0A]))
   \<and> main_monitor (args_with (PInt 1000)) ''9_log.txt'' ''00001'' 0 0 0
        (launched_world\<lparr>daemon := [(0, slow_inst)]\<rparr>)
       = (Ok (), after_exit_between_ticks)
   \<and> last_logs (calls after_exit_between_ticks)
       = Some (Logs 0 (Some (''line1'' @ [CHR 0x0A] @ ''line2'')))
   \<and> map_of (cwd_entries after_exit_between_ticks) ''9_log.txt''
       = Some (File (''line1'' @ [CHR 0x0A] @ ''line2''))"
proof -
  have run: "create_log_file ''9_log.txt'' (Some (Bytes (''line1'' @ [CHR 0x0A] @ ''line2'')))
       (world_with_log (''line1'' @ [CHR 0x0A]))
     = (Ok (), world_with_log (''line1'' @ [CHR 0x0A] @ ''line2''))"
    by (simp add: create_log_file_ascii world_with_log_def)
  have facts: "last_logs (calls after_two_polls) = Some (Logs 0 (Some (''line1'' @ [CHR 0x0A])))"
    "map_of (cwd_entries after_two_polls) ''9_log.txt'' = Some (File (''line1'' @ [CHR 0x0A]))"
    "last_logs (calls after_exit_between_ticks)
       = Some (Logs 0 (Some (''line1'' @ [CHR 0x0A] @ ''line2'')))"
    "map_of (cwd_entries after_exit_between_ticks) ''9_log.txt''
       = Some (File (''line1'' @ [CHR 0x0A] @ ''line2''))"
    by (simp_all add: after_two_polls_def after_exit_between_ticks_def)
  show ?thesis
    using run drain_after_a_minute exit_between_ticks_loop exit_between_ticks_monitor facts
      drains_replace [of "''9_log.txt''" "''line1'' @ [CHR 0x0A] @ ''line2''"
        "world_with_log (''line1'' @ [CHR 0x0A])"
        "world_with_log (''line1'' @ [CHR 0x0A] @ ''line2'')"
        "args_with (PInt 1000)" 0 drain_world
        "drain_world\<lparr>cwd_entries := [(''9_log.txt'', File (''line1'' @ [CHR 0x0A]))],
                              calls := [Logs 0 (Some (''line1'' @ [CHR 0x0A]))]\<rparr>"
        0 0 "launched_world\<lparr>daemon := [(0, slow_inst)]\<rparr>" 60 after_two_polls
        "''00001''" "launched_world\<lparr>daemon := [(0, slow_inst)]\<rparr>" after_exit_between_ticks]
    by simp
qed

subsection \<open>The quota\<close>

lemma str_int_90: "str_int 90 = ''90''"
  by code_simp

lemma quota_message_90:
  "quota_message (PInt 90) ''00001''
     = ''Time limit of 90s reachedfor case 00001 - no output generated.''"
  by (simp add: quota_message_def str_int_90)

text \<open>The scenario of the quota of 90 seconds: the polls at 0 and at 60 seconds drain
  the output and sleep; the third poll of the loop is the one at 120 seconds.\<close>

lemma polls_before_quota:
  "monitor_loop (args_with (PInt 90)) ''9_log.txt'' 0 0 0 launched_world
     = monitor_loop (args_with (PInt 90)) ''9_log.txt'' 0 0 60 tick_world"
  apply (subst monitor_loop.simps)
  apply (simp add: launched_world_def busy_inst_def containers_list_def live_ids_def inst_running_def
      record_call_def getattr_def lift_def drain_tick_def bind_def container_logs_def age_def
      create_log_file_ascii store_log_file_def synapse_file_def os_stat_size_def ret_def time_sleep_def)
  apply (subst monitor_loop.simps)
  apply (simp add: containers_list_def live_ids_def inst_running_def
      record_call_def getattr_def lift_def drain_tick_def bind_def container_logs_def age_def
      create_log_file_ascii store_log_file_def synapse_file_def os_stat_size_def ret_def time_sleep_def
      tick_world_def busy_inst_def)
  done

text \<open>With a quota that is a number, the whole case of the quota scenario, from the
  launch: two polls drain the output, the third one stops the container, and the case
  ends with the message in the log file.\<close>

lemma one_case_launch:
  "main_launch (env_with one_case runs_forever) (args_with (PInt 90)) ''repo@sha'' ''/work''
      ''/in/BraTS2021_00001'' \<lparr>container = None, errors = None\<rparr> (world_with_files [])
   = (Ok \<lparr>container = Some 0, errors = None\<rparr>, launched_world\<lparr>cwd_entries := []\<rparr>)"
  by (simp add: main_launch_def bind_def getattr_def lift_def Let_def case_id_of_def volumes_eval
      containers_run_def record_call_def register_def runs_forever_def world_with_files_def
      launched_world_def busy_inst_def)

lemma quota_scenario_case:
  "main_case (env_with one_case runs_forever) (args_with (PInt 90)) ''repo@sha'' ''/work''
      ''/in/BraTS2021_00001'' \<lparr>container = None, errors = None\<rparr> (world_with_files [])
   = (Ok \<lparr>container = Some 0, errors = None\<rparr>,
      \<lparr>clock = 120, daemon = [], next_id = 1,
       cwd_entries = [(''9_log.txt'',
          File ''Time limit of 90s reachedfor case 00001 - no output generated.'')],
       calls = calls tick_world @ [ListLive, Stop 0, Remove 0]\<rparr>)"
proof -
  have open_log: "open_w ''9_log.txt'' (launched_world\<lparr>cwd_entries := []\<rparr>) = (Ok (), launched_world)"
    by (simp add: open_w_def launched_world_def)
  have m: "ascii_ignore (str_of ''Time limit of 90s reachedfor case 00001 - no output generated.'')
           = ''Time limit of 90s reachedfor case 00001 - no output generated.''"
    by (rule ascii_ignore_ascii) simp
  have monitor: "main_monitor (args_with (PInt 90)) ''9_log.txt'' ''00001'' 0 0 0 launched_world
     = (Ok (),
      \<lparr>clock = 120, daemon = [], next_id = 1,
       cwd_entries = [(''9_log.txt'',
          File ''Time limit of 90s reachedfor case 00001 - no output generated.'')],
       calls = calls tick_world @ [ListLive, Stop 0, Remove 0]\<rparr>)"
    apply (simp add: main_monitor_def bind_def polls_before_quota)
    apply (subst monitor_loop.simps)
    apply (simp add: tick_world_def busy_inst_def containers_list_def live_ids_def inst_running_def
        record_call_def getattr_def lift_def container_stop_def ret_def quota_message_90
        create_log_file_str m store_log_file_def synapse_file_def os_stat_size_def bind_def
        container_remove_def)
    done
  have c0: "clock (world_with_files []) = 0"
    by (simp add: world_with_files_def)
  show ?thesis
    by (simp add: main_case_def Let_def bind_def one_case_launch getattr_def lift_def case_id_of_def
        open_log c0 monitor os_stat_size_def ret_def)
qed

lemma one_case_folders:
  "case_folders (env_with one_case s) ''/in'' = [''/in/BraTS2021_00001'']"
  by (simp add: env_with_def one_case_def case_folders_def os_walk_def path_join_def)

text \<open>
  C2. The parser gives \<^verbatim>\<open>--runtime_quota\<close> no type: the quota of every command line is a
  string, or \<^verbatim>\<open>None\<close>, and \<^verbatim>\<open>time_elapsed > args.runtime_quota\<close> raises \<^verbatim>\<open>TypeError\<close> for
  it. With \<^verbatim>\<open>-rt 90\<close> and a workload that never exits, the monitoring of the case raises
  at its first poll: the container is never stopped nor removed, and no message is
  written. The same happens at the poll at 120 seconds of the scenario: the container
  is running, 120 seconds have elapsed, the monitor raises and issues no stop.
\<close>

theorem string_quota_raises_at_poll:
  "parse_args c ''runtime_quota'' = Some (case runtime_quota c of None \<Rightarrow> PNone | Some q \<Rightarrow> PStr q)
   \<and> py_gt t (case runtime_quota c of None \<Rightarrow> PNone | Some q \<Rightarrow> PStr q) = Raise TypeError
   \<and> parse_args cli_store ''runtime_quota'' = Some (PStr ''90'')
   \<and> main (env_with one_case runs_forever) (args_with (PStr ''90'')) (world_with_files [])
       = (Raise TypeError,
          \<lparr>clock = 0, daemon = [(0, busy_inst)], next_id = 1,
           cwd_entries = [(''9_log.txt'', File [])],
           calls = [Login,
                    Run ''repo@sha'' ''9_case00001''
                      [(''/work'', ''/data/results'', ''rw''),
                       (''/in/BraTS2021_00001'', ''/data'', ''rw'')],
                    ListLive]\<rparr>)
   \<and> inst_running 0 busy_inst
   \<and> map_of (daemon tick_world) 0 = Some busy_inst
   \<and> inst_running (clock tick_world) busy_inst
   \<and> clock tick_world - 0 = 120
   \<and> main_monitor (args_with (PStr ''90'')) ''9_log.txt'' ''00001'' 0 0 60 tick_world
       = (Raise TypeError, record_call ListLive tick_world)"
proof -
  have a: "parse_args c ''runtime_quota''
           = Some (case runtime_quota c of None \<Rightarrow> PNone | Some q \<Rightarrow> PStr q)"
    by (simp add: parse_args_def)
  have b: "py_gt t (case runtime_quota c of None \<Rightarrow> PNone | Some q \<Rightarrow> PStr q) = Raise TypeError"
    by (cases "runtime_quota c") simp_all
  have c: "parse_args cli_store ''runtime_quota'' = Some (PStr ''90'')"
    by (simp add: parse_args_def cli_store_def)
  have first: "main_case (env_with one_case runs_forever) (args_with (PStr ''90'')) ''repo@sha'' ''/work''
          ''/in/BraTS2021_00001'' \<lparr>container = None, errors = None\<rparr>
          (record_call Login (world_with_files []))
        = (Raise TypeError,
          \<lparr>clock = 0, daemon = [(0, busy_inst)], next_id = 1,
           cwd_entries = [(''9_log.txt'', File [])],
           calls = [Login,
                    Run ''repo@sha'' ''9_case00001''
                      [(''/work'', ''/data/results'', ''rw''),
                       (''/in/BraTS2021_00001'', ''/data'', ''rw'')],
                    ListLive]\<rparr>)"
    apply (simp add: main_case_def main_launch_def bind_def getattr_def lift_def raise_def Let_def
        case_id_of_def volumes_eval containers_run_def record_call_def register_def
        runs_forever_def ret_def open_w_def world_with_files_def main_monitor_def)
    apply (subst monitor_loop.simps)
    apply (simp add: containers_list_def live_ids_def inst_running_def record_call_def getattr_def
        lift_def busy_inst_def)
    done
  have d: "main (env_with one_case runs_forever) (args_with (PStr ''90'')) (world_with_files [])
       = (Raise TypeError,
          \<lparr>clock = 0, daemon = [(0, busy_inst)], next_id = 1,
           cwd_entries = [(''9_log.txt'', File [])],
           calls = [Login,
                    Run ''repo@sha'' ''9_case00001''
                      [(''/work'', ''/data/results'', ''rw''),
                       (''/in/BraTS2021_00001'', ''/data'', ''rw'')],
                    ListLive]\<rparr>)"
    by (simp add: main_args_with one_case_folders bind_def first)
  have e: "inst_running 0 busy_inst" "map_of (daemon tick_world) 0 = Some busy_inst"
    "inst_running (clock tick_world) busy_inst" "clock tick_world - 0 = 120"
    by (simp_all add: tick_world_def busy_inst_def inst_running_def)
  have f: "main_monitor (args_with (PStr ''90'')) ''9_log.txt'' ''00001'' 0 0 60 tick_world
       = (Raise TypeError, record_call ListLive tick_world)"
    apply (simp add: main_monitor_def bind_def)
    apply (subst monitor_loop.simps)
    apply (simp add: containers_list_def live_ids_def tick_world_def busy_inst_def inst_running_def
        record_call_def getattr_def lift_def)
    done
  from a b c d e f show ?thesis by (intro conjI)
qed

end
